theory Spec2Isabelle
  imports Main "HOL-Library.AList"
begin

section \<open>Strings\<close>

text \<open>
  JavaScript strings are modelled as \<^typ>\<open>string\<close>; \<open>startsWith\<close>, \<open>endsWith\<close> and
  \<open>substring\<close> work on positions, as \<open>take\<close> and \<open>drop\<close> do.
\<close>

definition startsWith :: "string \<Rightarrow> string \<Rightarrow> bool" where
  "startsWith s p = (take (length p) s = p)"

definition endsWith :: "string \<Rightarrow> string \<Rightarrow> bool" where
  "endsWith s p = (length p \<le> length s \<and> drop (length s - length p) s = p)"

text \<open>
  \<open>s.replace(/\.js$/, ".ts")\<close> and its siblings: the pattern is a literal suffix anchored at
  the end of the input, so the call replaces that suffix when the string ends with it and
  returns the string unchanged otherwise.
\<close>

definition replaceSuffix :: "string \<Rightarrow> string \<Rightarrow> string \<Rightarrow> string" where
  "replaceSuffix old new s =
     (if endsWith s old then take (length s - length old) s @ new else s)"

text \<open>
  Decimal rendering of a number, as template strings and array indices use it. \<open>digitChar\<close>
  is only applied to a digit below ten.
\<close>

definition digitChar :: "nat \<Rightarrow> char" where
  "digitChar d = ''0123456789'' ! d"

function stringOfNat :: "nat \<Rightarrow> string" where
  "stringOfNat n =
     (if n < 10 then [digitChar n] else stringOfNat (n div 10) @ [digitChar (n mod 10)])"
  by pat_completeness auto
termination
  by (relation "measure (\<lambda>n. n)") auto

declare stringOfNat.simps [simp del]

section \<open>Data model\<close>

text \<open>
  A parsed JSON value. An object is the list of its own properties in the order
  \<open>Object.entries\<close> enumerates them.
\<close>

datatype json =
    JNull
  | JBool bool
  | JNum int
  | JStr string
  | JArr "json list"
  | JObj "(string \<times> json) list"

text \<open>Faults raised inside the pipeline; each carries the message of the JavaScript error.\<close>

datatype error = TypeError string | ToolchainError string

fun errorMessage :: "error \<Rightarrow> string" where
  "errorMessage (TypeError m) = m"
| "errorMessage (ToolchainError m) = m"

text \<open>
  \<^verbatim>\<open>
  interface PackageJson {
    name?: string;
    exports?: Record<string, string | Record<string, string>>;
    main?: string; types?: string; typings?: string;
    dependencies?: Record<string, string>;
    devDependencies?: Record<string, string>;
    compilerOptions?: ts.CompilerOptions;
  }
  \<close>
  An absent field is \<open>None\<close>. The fields have the types the interface declares; \<open>exports\<close>
  is walked by the code as a value of type \<open>any\<close> and is kept as a JSON value, and the
  compiler options are passed through to the toolchain unread.
\<close>

record PackageJson =
  name :: "string option"
  "exports" :: "json option"
  main :: "string option"
  types :: "string option"
  typings :: "string option"
  dependencies :: "(string \<times> string) list option"
  devDependencies :: "(string \<times> string) list option"
  compilerOptions :: "json option"

text \<open>JavaScript truthiness of an optional string field and of a JSON value.\<close>

fun truthyString :: "string option \<Rightarrow> bool" where
  "truthyString None = False"
| "truthyString (Some s) = (s \<noteq> [])"

fun truthy :: "json \<Rightarrow> bool" where
  "truthy JNull = False"
| "truthy (JBool b) = b"
| "truthy (JNum n) = (n \<noteq> 0)"
| "truthy (JStr s) = (s \<noteq> [])"
| "truthy (JArr xs) = True"
| "truthy (JObj kvs) = True"

section \<open>Path Normalizer\<close>

text \<open>
  \<^verbatim>\<open>
  function normalizePath(path: string): string {
    if (path.startsWith("./")) { path = path.substring(2); }
    if (path.startsWith("/")) { path = path.substring(1); }
    return path;
  }
  \<close>
\<close>

definition normalizePath :: "string \<Rightarrow> string" where
  "normalizePath path =
     (let path1 = (if startsWith path ''./'' then drop 2 path else path);
          path2 = (if startsWith path1 ''/'' then drop 1 path1 else path1)
      in path2)"

section \<open>Entry Point Resolver\<close>

text \<open>
  \<open>Object.entries\<close> and \<open>Object.values\<close> of a value whose \<open>typeof\<close> is \<open>object\<close>: the
  properties of an object, the indexed elements of an array. On \<open>null\<close> both throw, which
  \<open>processExports\<close> handles before calling \<open>objectEntries\<close>.
\<close>

fun objectEntries :: "json \<Rightarrow> (string \<times> json) list" where
  "objectEntries (JObj kvs) = kvs"
| "objectEntries (JArr xs) = zip (map stringOfNat [0..<length xs]) xs"
| "objectEntries _ = []"

text \<open>The string-valued conditions of a condition object, in order.\<close>

fun stringValues :: "(string \<times> json) list \<Rightarrow> string list" where
  "stringValues [] = []"
| "stringValues ((k, JStr s) # rest) = s # stringValues rest"
| "stringValues ((k, v) # rest) = stringValues rest"

text \<open>
  The closure \<open>processExports(exports, path)\<close> of \<open>getPackageEntryPoints\<close>, with the
  \<open>entryPoints\<close> array it pushes to passed through. \<open>processEntries\<close> is its
  \<open>for (const [key, value] of Object.entries(exports))\<close> loop.
  \<^verbatim>\<open>
  const processExports = (exports: any, path = "") => {
    if (typeof exports === "string") {
      entryPoints.push(exports);
    } else if (typeof exports === "object") {
      for (const [key, value] of Object.entries(exports)) {
        if (key.startsWith(".")) {
          const fullPath = path + key;
          if (typeof value === "string") {
            entryPoints.push(value);
          } else if (typeof value === "object") {
            processExports(value, fullPath);
          }
        } else if (value && typeof value === "object" && !Array.isArray(value)) {
          for (const conditionValue of Object.values(value)) {
            if (typeof conditionValue === "string") {
              entryPoints.push(conditionValue);
            }
          }
        }
      }
    }
  };
  \<close>
\<close>

function processExports :: "json \<Rightarrow> string \<Rightarrow> string list \<Rightarrow> error + string list"
  and processEntries ::
    "(string \<times> json) list \<Rightarrow> string \<Rightarrow> string list \<Rightarrow> error + string list"
where
  "processExports (JStr s) path entryPoints = Inr (entryPoints @ [s])"
| "processExports JNull path entryPoints =
     Inl (TypeError ''Cannot convert undefined or null to object'')"
| "processExports (JObj kvs) path entryPoints = processEntries kvs path entryPoints"
| "processExports (JArr xs) path entryPoints =
     processEntries (objectEntries (JArr xs)) path entryPoints"
| "processExports (JBool b) path entryPoints = Inr entryPoints"
| "processExports (JNum n) path entryPoints = Inr entryPoints"
| "processEntries [] path entryPoints = Inr entryPoints"
| "processEntries ((key, val) # rest) path entryPoints =
     (if startsWith key ''.'' then
        (let fullPath = path @ key in
         case val of
           JStr s \<Rightarrow> processEntries rest path (entryPoints @ [s])
         | JBool b \<Rightarrow> processEntries rest path entryPoints
         | JNum n \<Rightarrow> processEntries rest path entryPoints
         | _ \<Rightarrow>
             (case processExports val fullPath entryPoints of
                Inl e \<Rightarrow> Inl e
              | Inr entryPoints' \<Rightarrow> processEntries rest path entryPoints'))
      else
        (case val of
           JObj conditions \<Rightarrow> processEntries rest path (entryPoints @ stringValues conditions)
         | _ \<Rightarrow> processEntries rest path entryPoints))"
  by pat_completeness auto
termination
proof (relation "measure (\<lambda>x. case x of
          Inl (j, _, _) \<Rightarrow> size j
        | Inr (kvs, _, _) \<Rightarrow> sum_list (map (\<lambda>kv. Suc (size (snd kv))) kvs))",
       goal_cases)
  case 1
  show ?case by simp
next
  case (2 kvs path entryPoints)
  have "sum_list (map (\<lambda>kv. Suc (size (snd kv))) kvs)
          \<le> size_list (size_prod (\<lambda>_. 0) size) kvs"
    by (induction kvs) auto
  then show ?case by simp
next
  case (3 xs path entryPoints)
  have "sum_list (map (\<lambda>kv. Suc (size (snd kv))) (zip ks xs)) \<le> size_list size xs" for ks :: "string list"
  proof (induction xs arbitrary: ks)
    case Nil
    show ?case by simp
  next
    case (Cons x xs)
    show ?case using Cons [of "tl ks"] by (cases ks) auto
  qed
  then show ?case by (simp add: le_imp_less_Suc)
qed auto

text \<open>
  \<^verbatim>\<open>
  function getPackageEntryPoints(packageJson: PackageJson): string[] {
    const entryPoints: string[] = [];
    if (packageJson.main) { entryPoints.push(packageJson.main); }
    if (packageJson.types) { entryPoints.push(packageJson.types); }
    else if (packageJson.typings) { entryPoints.push(packageJson.typings); }
    if (packageJson.exports) { ...; processExports(packageJson.exports); }
    return entryPoints
      .map(normalizePath)
      .map((path) => path.replace(/\.js$/, ".ts"))
      .map((path) => path.replace(/\.d\.ts$/, ".ts"))
      .map((path) => path.replace(/\.mjs$/, ".ts"))
      .map((path) => path.replace(/\.cjs$/, ".ts"));
  }
  \<close>
\<close>

definition toSourcePath :: "string \<Rightarrow> string" where
  "toSourcePath p =
     replaceSuffix ''.cjs'' ''.ts''
       (replaceSuffix ''.mjs'' ''.ts''
         (replaceSuffix ''.d.ts'' ''.ts''
           (replaceSuffix ''.js'' ''.ts'' (normalizePath p))))"

definition pushTypings :: "PackageJson \<Rightarrow> string list" where
  "pushTypings packageJson =
     (case typings packageJson of
        Some t \<Rightarrow> if t \<noteq> [] then [t] else []
      | None \<Rightarrow> [])"

definition getPackageEntryPoints :: "PackageJson \<Rightarrow> error + string list" where
  "getPackageEntryPoints packageJson =
     (let entryPoints1 =
            (case main packageJson of
               Some m \<Rightarrow> if m \<noteq> [] then [m] else []
             | None \<Rightarrow> []);
          entryPoints2 =
            (case types packageJson of
               Some t \<Rightarrow>
                 if t \<noteq> [] then entryPoints1 @ [t] else entryPoints1 @ pushTypings packageJson
             | None \<Rightarrow> entryPoints1 @ pushTypings packageJson);
          walked =
            (case exports packageJson of
               Some ex \<Rightarrow>
                 if truthy ex then processExports ex [] entryPoints2 else Inr entryPoints2
             | None \<Rightarrow> Inr entryPoints2)
      in case walked of
           Inl e \<Rightarrow> Inl e
         | Inr entryPoints \<Rightarrow> Inr (map toSourcePath entryPoints))"


section \<open>The toolchain\<close>

text \<open>
  The TypeScript compiler is an external library. Its objects are modelled by what the
  pipeline reads from them, and its functions are the fields of the record \<open>Toolchain\<close>,
  a parameter of every function that calls them.
\<close>

text \<open>
  A top-level child of a source file, as \<open>sourceFile.forEachChild\<close> visits them. An import
  declaration carries the text of its module specifier when that is a string literal.
\<close>

datatype Node =
    ImportDeclaration "string option"
  | ExportDeclaration "string option"
  | OtherNode

record SourceFile =
  fileName :: string
  children :: "Node list"
  getLineAndCharacterOfPosition :: "nat \<Rightarrow> nat \<times> nat"

datatype DiagnosticCategory = Warning | Error | Suggestion | Message

datatype MessageText = MessageString string | MessageChain string "MessageText list"

record Diagnostic =
  category :: DiagnosticCategory
  "file" :: "SourceFile option"
  start :: "nat option"
  messageText :: MessageText

record EmitResult =
  emitSkipped :: bool
  diagnostics :: "Diagnostic list"

text \<open>
  The options object handed to \<open>ts.createProgram\<close>. Every entry but two is a literal of the
  source; \<open>declarationMap\<close> is the \<open>includeDeclarationMap\<close> option, and the manifest's
  \<open>compilerOptions\<close> block, when there is one, is spread over the rest.
\<close>

record CompilerOptions =
  declarationMap :: bool
  manifestOverrides :: "json option"

text \<open>
  The callbacks of the compiler host. \<open>getSourceFile\<close> answers with the arguments it gives
  to \<open>ts.createSourceFile\<close>; \<open>writeFile\<close> changes the declaration map and is the function
  \<open>writeFile\<close> below.
\<close>

record CompilerHost =
  getSourceFile :: "string \<Rightarrow> (string \<times> string) option"
  getDefaultLibFileName :: string
  getCurrentDirectory :: string
  getCanonicalFileName :: "string \<Rightarrow> string"
  useCaseSensitiveFileNames :: bool
  getNewLine :: string
  fileExists :: "string \<Rightarrow> bool"
  readFile :: "string \<Rightarrow> string"
  directoryExists :: "string \<Rightarrow> bool"
  getDirectories :: "string list"
  realpath :: "string \<Rightarrow> string"
  resolveModuleNames :: "string list \<Rightarrow> string \<Rightarrow> string option list"

text \<open>
  A program, by the results of its methods: \<open>emit\<close> is the sequence of \<open>writeFile\<close> calls
  that \<open>program.emit()\<close> makes on the host together with its result, or the fault it raises.
\<close>

record Program =
  getSourceFile :: "string \<Rightarrow> SourceFile option"
  getCompilerOptions :: CompilerOptions
  emit :: "error + (string \<times> string) list \<times> EmitResult"

record Toolchain =
  JSON_parse :: "string \<Rightarrow> string + PackageJson option"
  createProgram :: "string list \<Rightarrow> CompilerOptions \<Rightarrow> CompilerHost \<Rightarrow> error + Program"
  getPreEmitDiagnostics :: "Program \<Rightarrow> error + Diagnostic list"
  resolveModuleName ::
    "string \<Rightarrow> string \<Rightarrow> CompilerOptions \<Rightarrow> (string \<Rightarrow> bool) \<Rightarrow> string option"
  flattenDiagnosticMessageText :: "MessageText \<Rightarrow> string \<Rightarrow> string"

section \<open>Dependency-Closure Filter\<close>

text \<open>
  The declaration maps are plain objects created by \<open>{}\<close>: the list of their own properties
  in insertion order, over the properties every such object inherits from
  \<open>Object.prototype\<close>. The value of a property is a text, or the member of
  \<open>Object.prototype\<close> of that name (a function, or the prototype object itself for
  \<open>__proto__\<close>).
\<close>

datatype Property = Text string | Inherited string

type_synonym Declarations = "(string \<times> Property) list"

definition objectPrototypeKeys :: "string list" where
  "objectPrototypeKeys =
     [''constructor'', ''__defineGetter__'', ''__defineSetter__'', ''hasOwnProperty'',
      ''__lookupGetter__'', ''__lookupSetter__'', ''isPrototypeOf'', ''propertyIsEnumerable'',
      ''toString'', ''valueOf'', ''__proto__'', ''toLocaleString'']"

text \<open>\<open>object[key]\<close>: the own property, else the inherited one, else \<open>undefined\<close>.\<close>

definition getProperty :: "Declarations \<Rightarrow> string \<Rightarrow> Property option" where
  "getProperty object key =
     (case map_of object key of
        Some v \<Rightarrow> Some v
      | None \<Rightarrow> if key \<in> set objectPrototypeKeys then Some (Inherited key) else None)"

text \<open>Truthiness of \<open>object[key]\<close>: a text is truthy when not empty, a function or object is.\<close>

fun truthyProperty :: "Property option \<Rightarrow> bool" where
  "truthyProperty None = False"
| "truthyProperty (Some (Text s)) = (s \<noteq> [])"
| "truthyProperty (Some (Inherited key)) = True"

text \<open>
  \<open>object[key] = v\<close>: the own property is set or added at the end, except that on an
  object without an own property \<open>__proto__\<close> an assignment to \<open>__proto__\<close> goes to the
  accessor of \<open>Object.prototype\<close> and adds no own property.
\<close>

definition setProperty :: "Declarations \<Rightarrow> string \<Rightarrow> Property \<Rightarrow> Declarations" where
  "setProperty object key v =
     (if key = ''__proto__'' \<and> map_of object key = None then object
      else AList.update key v object)"

text \<open>\<open>allDeclarations[dtsPath]\<close> as a condition.\<close>

definition hasDeclaration :: "Declarations \<Rightarrow> string \<Rightarrow> bool" where
  "hasDeclaration allDeclarations path = truthyProperty (getProperty allDeclarations path)"

text \<open>\<open>fileName.replace(/\.tsx?$/, ".d.ts")\<close>\<close>

definition dtsPathOf :: "string \<Rightarrow> string" where
  "dtsPathOf f =
     (if endsWith f ''.tsx'' then replaceSuffix ''.tsx'' ''.d.ts'' f
      else replaceSuffix ''.ts'' ''.d.ts'' f)"

text \<open>The property names still outside \<open>relevantFiles\<close>: what the walk can still add.\<close>

definition unvisited :: "Declarations \<Rightarrow> string list \<Rightarrow> nat" where
  "unvisited allDeclarations relevantFiles =
     card ((fst ` set allDeclarations \<union> set objectPrototypeKeys) - set relevantFiles)"

text \<open>
  What the callback of \<open>sourceFile.forEachChild\<close> finds for one child: the source file a
  relative import resolves to in the program, if the child is an import declaration with a
  string-literal specifier beginning with a dot, \<open>ts.resolveModuleName\<close> resolves it to a
  non-empty path and \<open>program.getSourceFile\<close> knows that path.
\<close>

definition importedFileOf :: "Toolchain \<Rightarrow> Program \<Rightarrow> SourceFile \<Rightarrow> Node \<Rightarrow> SourceFile option"
where
  "importedFileOf ts program sourceFile node =
     (case node of
        ImportDeclaration (Some importPath) \<Rightarrow>
          if startsWith importPath ''.'' then
            (case resolveModuleName ts importPath (fileName sourceFile)
                    (getCompilerOptions program)
                    (\<lambda>f. getSourceFile program f \<noteq> None) of
               Some resolvedPath \<Rightarrow>
                 if resolvedPath \<noteq> [] then getSourceFile program resolvedPath else None
             | None \<Rightarrow> None)
          else None
      | _ \<Rightarrow> None)"

text \<open>
  The closure \<open>addFileAndDependencies\<close> of \<open>filterRelevantDeclarations\<close>, with the set
  \<open>relevantFiles\<close> (a list in insertion order) passed through; \<open>visitChildren\<close> is the
  \<open>forEachChild\<close> loop over the children in order.
  \<^verbatim>\<open>
  const addFileAndDependencies = (sourceFile: ts.SourceFile) => {
    const dtsPath = sourceFile.fileName.replace(/\.tsx?$/, ".d.ts");
    if (relevantFiles.has(dtsPath) || !allDeclarations[dtsPath]) { return; }
    relevantFiles.add(dtsPath);
    sourceFile.forEachChild((node) => {
      if (ts.isImportDeclaration(node) && node.moduleSpecifier &&
          ts.isStringLiteral(node.moduleSpecifier)) {
        const importPath = node.moduleSpecifier.text;
        if (importPath.startsWith(".")) {
          const resolvedPath = ts.resolveModuleName(importPath, sourceFile.fileName,
            program.getCompilerOptions(),
            { fileExists: (f) => program.getSourceFile(f) !== undefined,
              readFile: () => "" }).resolvedModule?.resolvedFileName;
          if (resolvedPath) {
            const importedFile = program.getSourceFile(resolvedPath);
            if (importedFile) { addFileAndDependencies(importedFile); }
          }
        }
      }
    });
  };
  \<close>
\<close>

function addFileAndDependencies ::
    "Toolchain \<Rightarrow> Program \<Rightarrow> Declarations \<Rightarrow> SourceFile \<Rightarrow> string list \<Rightarrow> string list"
  and visitChildren ::
    "Toolchain \<Rightarrow> Program \<Rightarrow> Declarations \<Rightarrow> SourceFile \<Rightarrow> Node list \<Rightarrow> string list
       \<Rightarrow> string list"
where
  "addFileAndDependencies ts program allDeclarations sourceFile relevantFiles =
     (let dtsPath = dtsPathOf (fileName sourceFile) in
      if dtsPath \<in> set relevantFiles \<or> \<not> hasDeclaration allDeclarations dtsPath
      then relevantFiles
      else visitChildren ts program allDeclarations sourceFile (children sourceFile)
             (relevantFiles @ [dtsPath]))"
| "visitChildren ts program allDeclarations sourceFile [] relevantFiles = relevantFiles"
| "visitChildren ts program allDeclarations sourceFile (node # nodes) relevantFiles =
     visitChildren ts program allDeclarations sourceFile nodes
       (case importedFileOf ts program sourceFile node of
          Some importedFile \<Rightarrow>
            addFileAndDependencies ts program allDeclarations importedFile relevantFiles
        | None \<Rightarrow> relevantFiles)"
  by pat_completeness auto

text \<open>
  The walk ends: a call either returns at once or adds a declaration path that was not yet in
  \<open>relevantFiles\<close>, and there are finitely many of those.
\<close>

lemma unvisited_mono:
  "set rel \<subseteq> set rel' \<Longrightarrow> unvisited d rel' \<le> unvisited d rel"
  unfolding unvisited_def by (rule card_mono) auto

lemma hasDeclaration_key:
  "hasDeclaration d k \<Longrightarrow> k \<in> fst ` set d \<union> set objectPrototypeKeys"
  by (auto simp: hasDeclaration_def getProperty_def split: option.splits if_splits
      dest!: map_of_SomeD intro: rev_image_eqI)

lemma unvisited_less:
  assumes "hasDeclaration d k" and "k \<notin> set rel"
  shows "unvisited d (rel @ [k]) < unvisited d rel"
  unfolding unvisited_def
proof (rule psubset_card_mono)
  show "finite ((fst ` set d \<union> set objectPrototypeKeys) - set rel)" by simp
  show "(fst ` set d \<union> set objectPrototypeKeys) - set (rel @ [k])
          \<subset> (fst ` set d \<union> set objectPrototypeKeys) - set rel"
    using assms hasDeclaration_key [OF assms(1)] by auto
qed

lemma walk_grows_dom:
  "addFileAndDependencies_visitChildren_dom (Inl (ts, p, d, sf, rel)) \<Longrightarrow>
     set rel \<subseteq> set (addFileAndDependencies ts p d sf rel)"
  "addFileAndDependencies_visitChildren_dom (Inr (ts, p, d, sf, ns, rel)) \<Longrightarrow>
     set rel \<subseteq> set (visitChildren ts p d sf ns rel)"
proof (induct rule: addFileAndDependencies_visitChildren.pinduct)
  case (1 ts program allDeclarations sourceFile relevantFiles)
  then show ?case
    by (auto simp: addFileAndDependencies.psimps Let_def)
next
  case (2 ts program allDeclarations sourceFile relevantFiles)
  then show ?case by (simp add: visitChildren.psimps)
next
  case (3 ts program allDeclarations sourceFile node nodes relevantFiles)
  show ?case
  proof (cases "importedFileOf ts program sourceFile node")
    case None
    with 3(3) show ?thesis
      by (simp add: visitChildren.psimps(2) [OF 3(1)])
  next
    case (Some importedFile)
    with 3(2) [OF Some] 3(3) show ?thesis
      by (auto simp: visitChildren.psimps(2) [OF 3(1)])
  qed
qed

termination addFileAndDependencies
proof (relation "(\<lambda>x. case x of
            Inl (ts, p, d, sf, rel) \<Rightarrow> unvisited d rel
          | Inr (ts, p, d, sf, ns, rel) \<Rightarrow> unvisited d rel)
        <*mlex*> measure (\<lambda>x. case x of
            Inl _ \<Rightarrow> 0
          | Inr (ts, p, d, sf, ns, rel) \<Rightarrow> Suc (length ns))", goal_cases)
  case 1
  show ?case by (simp add: wf_mlex)
next
  case (2 ts program allDeclarations sourceFile relevantFiles x)
  then show ?case
    by (auto intro!: mlex_less unvisited_less)
next
  case (3 ts program allDeclarations sourceFile node nodes relevantFiles importedFile)
  then show ?case
    by (auto intro!: mlex_leq)
next
  case (4 ts program allDeclarations sourceFile node nodes relevantFiles)
  show ?case
  proof (rule mlex_leq)
    show "(case Inr (ts, program, allDeclarations, sourceFile, nodes,
             case importedFileOf ts program sourceFile node of
               None \<Rightarrow> relevantFiles
             | Some importedFile \<Rightarrow>
                 addFileAndDependencies ts program allDeclarations importedFile relevantFiles) of
            Inl (ts, p, d, sf, rel) \<Rightarrow> unvisited d rel
          | Inr (ts, p, d, sf, ns, rel) \<Rightarrow> unvisited d rel)
       \<le> (case Inr (ts, program, allDeclarations, sourceFile, node # nodes, relevantFiles) of
            Inl (ts, p, d, sf, rel) \<Rightarrow> unvisited d rel
          | Inr (ts, p, d, sf, ns, rel) \<Rightarrow> unvisited d rel)"
      using 4 by (auto intro!: unvisited_mono walk_grows_dom(1) split: option.splits)
  qed simp
qed

text \<open>
  \<^verbatim>\<open>
  function filterRelevantDeclarations(allDeclarations, packageJson, program) {
    if (!packageJson) { return allDeclarations; }
    const relevantFiles = new Set<string>();
    const entryPoints = getPackageEntryPoints(packageJson);
    if (entryPoints.length === 0) { return allDeclarations; }
    ...
    for (const entryPoint of entryPoints) {
      const sourceFile = program.getSourceFile(entryPoint);
      if (sourceFile) { addFileAndDependencies(sourceFile); }
    }
    if (relevantFiles.size === 0) { return allDeclarations; }
    const filteredDeclarations: Record<string, string> = {};
    for (const file of relevantFiles) {
      if (allDeclarations[file]) { filteredDeclarations[file] = allDeclarations[file]; }
    }
    return filteredDeclarations;
  }
  \<close>
  The manifest is \<open>None\<close> when the variable holds \<open>null\<close>.
\<close>

definition walkEntryPoints ::
  "Toolchain \<Rightarrow> Program \<Rightarrow> Declarations \<Rightarrow> string list \<Rightarrow> string list \<Rightarrow> string list" where
  "walkEntryPoints ts program allDeclarations entryPoints relevantFiles =
     fold (\<lambda>entryPoint relevant.
             case getSourceFile program entryPoint of
               Some sourceFile \<Rightarrow>
                 addFileAndDependencies ts program allDeclarations sourceFile relevant
             | None \<Rightarrow> relevant)
          entryPoints relevantFiles"

definition selectDeclarations :: "Declarations \<Rightarrow> string list \<Rightarrow> Declarations" where
  "selectDeclarations allDeclarations relevantFiles =
     fold (\<lambda>f filteredDeclarations.
             case getProperty allDeclarations f of
               Some v \<Rightarrow>
                 if truthyProperty (Some v) then setProperty filteredDeclarations f v
                 else filteredDeclarations
             | None \<Rightarrow> filteredDeclarations)
          relevantFiles []"

definition filterRelevantDeclarations ::
  "Toolchain \<Rightarrow> Declarations \<Rightarrow> PackageJson option \<Rightarrow> Program \<Rightarrow> error + Declarations" where
  "filterRelevantDeclarations ts allDeclarations packageJson program =
     (case packageJson of
        None \<Rightarrow> Inr allDeclarations
      | Some manifest \<Rightarrow>
          (case getPackageEntryPoints manifest of
             Inl e \<Rightarrow> Inl e
           | Inr entryPoints \<Rightarrow>
               if length entryPoints = 0 then Inr allDeclarations
               else
                 (let relevantFiles = walkEntryPoints ts program allDeclarations entryPoints []
                  in if length relevantFiles = 0 then Inr allDeclarations
                     else Inr (selectDeclarations allDeclarations relevantFiles))))"

section \<open>External Dependency Shim Generator\<close>

text \<open>
  \<^verbatim>\<open>
  function getExternalDependencies(packageJson: PackageJson): string[] {
    if (!packageJson) return [];
    const dependencies: string[] = [];
    if (packageJson.dependencies) { dependencies.push(...Object.keys(packageJson.dependencies)); }
    if (packageJson.devDependencies) { dependencies.push(...Object.keys(packageJson.devDependencies)); }
    return dependencies;
  }
  \<close>
\<close>

definition getExternalDependencies :: "PackageJson option \<Rightarrow> string list" where
  "getExternalDependencies packageJson =
     (case packageJson of
        None \<Rightarrow> []
      | Some manifest \<Rightarrow>
          (case dependencies manifest of Some deps \<Rightarrow> map fst deps | None \<Rightarrow> [])
          @ (case devDependencies manifest of Some deps \<Rightarrow> map fst deps | None \<Rightarrow> []))"

text \<open>
  The literal texts of the source: the baseline type library returned by
  \<open>getEnhancedLibDeclaration\<close> and the three shim templates. They are long template strings
  that nothing in the pipeline reads, so they are kept as parameters.
\<close>

record LibraryTexts =
  enhancedLibDeclaration :: string
  reactShim :: string
  lodashShim :: string
  genericShim :: "string \<Rightarrow> string"

definition shimPath :: "string \<Rightarrow> string" where
  "shimPath dep = ''node_modules/'' @ dep @ ''/index.d.ts''"

definition shimText :: "LibraryTexts \<Rightarrow> string \<Rightarrow> string" where
  "shimText texts dep =
     (if dep = ''react'' then reactShim texts
      else if dep = ''lodash'' then lodashShim texts
      else genericShim texts dep)"

definition createExternalDependencyShims ::
  "LibraryTexts \<Rightarrow> string list \<Rightarrow> (string \<times> string) list" where
  "createExternalDependencyShims texts deps =
     fold (\<lambda>dep shims. AList.update (shimPath dep) (shimText texts dep) shims) deps []"

section \<open>Compiler Host Adapter\<close>

text \<open>
  The virtual file store is a \<open>Map<string, string>\<close>: the list of its entries in insertion
  order, with \<open>set\<close> as \<open>AList.update\<close>.
\<close>

type_synonym FileMap = "(string \<times> string) list"

definition has :: "FileMap \<Rightarrow> string \<Rightarrow> bool" where
  "has fileMap path = (map_of fileMap path \<noteq> None)"

text \<open>\<open>s.split("/")\<close> and \<open>parts.join("/")\<close>.\<close>

fun splitOn :: "char \<Rightarrow> string \<Rightarrow> string list" where
  "splitOn c [] = [[]]"
| "splitOn c (x # xs) =
     (if x = c then [] # splitOn c xs
      else (case splitOn c xs of w # ws \<Rightarrow> (x # w) # ws | [] \<Rightarrow> [[x]]))"

fun joinWith :: "string \<Rightarrow> string list \<Rightarrow> string" where
  "joinWith sep [] = []"
| "joinWith sep [w] = w"
| "joinWith sep (w # ws) = w @ sep @ joinWith sep ws"

text \<open>\<open>containingFile.split("/").slice(0, -1).join("/")\<close>\<close>

definition containingDirOf :: "string \<Rightarrow> string" where
  "containingDirOf containingFile = joinWith ''/'' (butlast (splitOn CHR ''/'' containingFile))"

text \<open>
  The loop \<open>for (const ext of [".ts", ".tsx", ".d.ts", ""])\<close> of \<open>resolveModuleNames\<close>,
  which returns at the first path the store has.
\<close>

fun probeExtensions :: "FileMap \<Rightarrow> string \<Rightarrow> string list \<Rightarrow> string option" where
  "probeExtensions fileMap resolvedPath [] = None"
| "probeExtensions fileMap resolvedPath (ext # exts) =
     (let fullPath = (if endsWith resolvedPath ext then resolvedPath else resolvedPath @ ext)
      in if has fileMap fullPath then Some fullPath
         else probeExtensions fileMap resolvedPath exts)"

text \<open>
  The callback that \<open>resolveModuleNames\<close> maps over the module names; \<open>probePaths\<close> is its
  extension loop followed by the \<open>/index.ts\<close> probe.
  \<^verbatim>\<open>
  if (moduleName.startsWith(".")) {
    const containingDir = containingFile.split("/").slice(0, -1).join("/");
    let resolvedPath = normalizePath(`${containingDir}/${moduleName}`);
    for (const ext of [".ts", ".tsx", ".d.ts", ""]) {
      const fullPath = resolvedPath.endsWith(ext) ? resolvedPath : `${resolvedPath}${ext}`;
      if (fileMap.has(fullPath)) { return { resolvedFileName: fullPath }; }
    }
    const indexPath = `${resolvedPath}/index.ts`;
    if (fileMap.has(indexPath)) { return { resolvedFileName: indexPath }; }
  }
  else if (resolveExternalDependencies) {
    const nodeModulePath = `node_modules/${moduleName}/index.d.ts`;
    if (fileMap.has(nodeModulePath)) { return { resolvedFileName: nodeModulePath }; }
  }
  return undefined;
  \<close>
\<close>

definition probePaths :: "FileMap \<Rightarrow> string \<Rightarrow> string option" where
  "probePaths fileMap resolvedPath =
     (case probeExtensions fileMap resolvedPath [''.ts'', ''.tsx'', ''.d.ts'', []] of
        Some fullPath \<Rightarrow> Some fullPath
      | None \<Rightarrow>
          (let indexPath = resolvedPath @ ''/index.ts''
           in if has fileMap indexPath then Some indexPath else None))"

definition resolveModule :: "FileMap \<Rightarrow> bool \<Rightarrow> string \<Rightarrow> string \<Rightarrow> string option" where
  "resolveModule fileMap resolveExternal containingFile moduleName =
     (if startsWith moduleName ''.'' then
        (let containingDir = containingDirOf containingFile;
             resolvedPath = normalizePath (containingDir @ ''/'' @ moduleName)
         in probePaths fileMap resolvedPath)
      else if resolveExternal then
        (let nodeModulePath = ''node_modules/'' @ moduleName @ ''/index.d.ts''
         in if has fileMap nodeModulePath then Some nodeModulePath else None)
      else None)"

text \<open>The object literal \<open>compilerHost\<close>, over the store and the option it closes over.\<close>

definition compilerHost :: "FileMap \<Rightarrow> bool \<Rightarrow> CompilerHost" where
  "compilerHost fileMap resolveExternal =
     \<lparr> CompilerHost.getSourceFile = (\<lambda>filename.
           let normalizedFilename = normalizePath filename in
           case map_of fileMap normalizedFilename of
             Some sourceText \<Rightarrow> Some (normalizedFilename, sourceText)
           | None \<Rightarrow> None),
       getDefaultLibFileName = ''lib.d.ts'',
       getCurrentDirectory = ''/'',
       getCanonicalFileName = (\<lambda>fileName. normalizePath fileName),
       useCaseSensitiveFileNames = True,
       getNewLine = [CHR 0x0A],
       fileExists = (\<lambda>filename. has fileMap (normalizePath filename)),
       readFile = (\<lambda>filename.
           case map_of fileMap (normalizePath filename) of Some text \<Rightarrow> text | None \<Rightarrow> []),
       directoryExists = (\<lambda>path. True),
       getDirectories = [],
       realpath = (\<lambda>path. path),
       resolveModuleNames = (\<lambda>moduleNames containingFile.
           map (resolveModule fileMap resolveExternal containingFile) moduleNames) \<rparr>"

text \<open>
  \<^verbatim>\<open>
  writeFile: (filename, content) => {
    if (filename.endsWith(".d.ts") ||
        (includeDeclarationMap && filename.endsWith(".d.ts.map"))) {
      declarationFiles[filename] = content;
    }
  }
  \<close>
\<close>

definition writeFile :: "bool \<Rightarrow> Declarations \<Rightarrow> string \<Rightarrow> string \<Rightarrow> Declarations" where
  "writeFile includeMap declarationFiles filename text =
     (if endsWith filename ''.d.ts'' \<or> (includeMap \<and> endsWith filename ''.d.ts.map'')
      then setProperty declarationFiles filename (Text text)
      else declarationFiles)"

section \<open>Declaration Emission Driver and Orchestrator\<close>

record FileInput =
  name :: string
  content :: string

text \<open>An option left out of the \<open>GenerateOptions\<close> object is \<open>None\<close> and takes its default.\<close>

record GenerateOptions =
  filterToExports :: "bool option"
  resolveExternalDependencies :: "bool option"
  timeoutMs :: "nat option"
  maxMemoryMb :: "nat option"
  includeDeclarationMap :: "bool option"

record DeclarationResult =
  files :: Declarations
  errors :: "string list"
  success :: bool
  warnings :: "string list"

text \<open>
  The first block of the \<open>try\<close>: the manifest and the warnings pushed while looking for it.
  \<^verbatim>\<open>
  let packageJson: PackageJson | null = null;
  if (packageJsonContent) {
    try { packageJson = JSON.parse(packageJsonContent); }
    catch (e) { warnings.push(`Failed to parse package.json: ${e.message}`); }
  } else {
    const packageJsonFile = files.find((file) => file.name === "package.json");
    if (packageJsonFile) {
      try { packageJson = JSON.parse(packageJsonFile.content); }
      catch (e) { warnings.push(`Failed to parse package.json from file map: ${e.message}`); }
    }
  }
  \<close>
  \<open>JSON_parse\<close> answers \<open>Inl\<close> with the message of the syntax error it throws, and
  \<open>Inr None\<close> for a text that parses to \<open>null\<close>.
\<close>

definition parseManifest ::
  "Toolchain \<Rightarrow> FileInput list \<Rightarrow> string option \<Rightarrow> PackageJson option \<times> string list" where
  "parseManifest ts inputFiles packageJsonContent =
     (if truthyString packageJsonContent then
        (case JSON_parse ts (case packageJsonContent of Some text \<Rightarrow> text | None \<Rightarrow> []) of
           Inr packageJson \<Rightarrow> (packageJson, [])
         | Inl message \<Rightarrow> (None, [''Failed to parse package.json: '' @ message]))
      else
        (case find (\<lambda>f. name f = ''package.json'') inputFiles of
           Some packageJsonFile \<Rightarrow>
             (case JSON_parse ts (content packageJsonFile) of
                Inr packageJson \<Rightarrow> (packageJson, [])
              | Inl message \<Rightarrow>
                  (None, [''Failed to parse package.json from file map: '' @ message]))
         | None \<Rightarrow> (None, [])))"

text \<open>
  The virtual file store before the program is created: the submitted files under their
  normalized names, the baseline library, and the shims when they are asked for and there is
  a manifest.
  \<^verbatim>\<open>
  files.forEach((file) => {
    fileMap.set(normalizePath(file.name), file.content);
    inputFileNames.push(normalizePath(file.name));
  });
  fileMap.set("lib.d.ts", getEnhancedLibDeclaration());
  if (resolveExternalDependencies && packageJson) {
    const externalDeps = getExternalDependencies(packageJson);
    const dependencyShims = createExternalDependencyShims(externalDeps);
    for (const [path, content] of Object.entries(dependencyShims)) { fileMap.set(path, content); }
  }
  \<close>
\<close>

definition registerFiles :: "FileInput list \<Rightarrow> FileMap \<Rightarrow> FileMap" where
  "registerFiles inputFiles fileMap =
     fold (\<lambda>f m. AList.update (normalizePath (name f)) (content f) m) inputFiles fileMap"

definition buildFileMap ::
  "LibraryTexts \<Rightarrow> FileInput list \<Rightarrow> bool \<Rightarrow> PackageJson option \<Rightarrow> FileMap" where
  "buildFileMap texts inputFiles resolveExternal packageJson =
     (let fileMap1 = registerFiles inputFiles [];
          fileMap2 = AList.update ''lib.d.ts'' (enhancedLibDeclaration texts) fileMap1
      in if resolveExternal \<and> packageJson \<noteq> None then
           (let externalDeps = getExternalDependencies packageJson;
                dependencyShims = createExternalDependencyShims texts externalDeps
            in fold (\<lambda>(path, text) m. AList.update path text m) dependencyShims fileMap2)
         else fileMap2)"

text \<open>
  The formatter both diagnostic lists are mapped with.
  \<^verbatim>\<open>
  if (diagnostic.file && diagnostic.start !== undefined) {
    const { line, character } = diagnostic.file.getLineAndCharacterOfPosition(diagnostic.start);
    const message = ts.flattenDiagnosticMessageText(diagnostic.messageText, "\n");
    return `${diagnostic.file.fileName}:${line + 1},${character + 1}: ${message}`;
  } else {
    return ts.flattenDiagnosticMessageText(diagnostic.messageText, "\n");
  }
  \<close>
\<close>

definition formatDiagnostic :: "Toolchain \<Rightarrow> Diagnostic \<Rightarrow> string" where
  "formatDiagnostic ts diagnostic =
     (case (file diagnostic, start diagnostic) of
        (Some sourceFile, Some position) \<Rightarrow>
          (let (line, character) = getLineAndCharacterOfPosition sourceFile position;
               message = flattenDiagnosticMessageText ts (messageText diagnostic) [CHR 0x0A]
           in fileName sourceFile @ '':'' @ stringOfNat (line + 1) @ '','' @
              stringOfNat (character + 1) @ '': '' @ message)
      | _ \<Rightarrow> flattenDiagnosticMessageText ts (messageText diagnostic) [CHR 0x0A])"

definition formatErrors :: "Toolchain \<Rightarrow> Diagnostic list \<Rightarrow> string list" where
  "formatErrors ts allDiagnostics =
     map (formatDiagnostic ts) (filter (\<lambda>d. category d = Error) allDiagnostics)"

definition formatWarnings :: "Toolchain \<Rightarrow> Diagnostic list \<Rightarrow> string list" where
  "formatWarnings ts allDiagnostics =
     map (formatDiagnostic ts) (filter (\<lambda>d. category d = Warning) allDiagnostics)"

text \<open>The result of the \<open>catch\<close> block, with the warnings pushed before the fault.\<close>

definition internalError :: "error \<Rightarrow> string list \<Rightarrow> DeclarationResult" where
  "internalError e pushed =
     \<lparr> files = [], errors = [''Internal error: '' @ errorMessage e], success = False,
       warnings = pushed \<rparr>"

text \<open>
  The destructuring of the options with its defaults.
  \<^verbatim>\<open>
  const {
    filterToExports = true,
    resolveExternalDependencies = true,
    timeoutMs = 30000,
    maxMemoryMb = 256,
    includeDeclarationMap = false,
  } = options;
  \<close>
\<close>

definition filterToExportsOf :: "GenerateOptions \<Rightarrow> bool" where
  "filterToExportsOf options = (case filterToExports options of Some b \<Rightarrow> b | None \<Rightarrow> True)"

definition resolveExternalDependenciesOf :: "GenerateOptions \<Rightarrow> bool" where
  "resolveExternalDependenciesOf options =
     (case resolveExternalDependencies options of Some b \<Rightarrow> b | None \<Rightarrow> True)"

definition timeoutMsOf :: "GenerateOptions \<Rightarrow> nat" where
  "timeoutMsOf options = (case timeoutMs options of Some n \<Rightarrow> n | None \<Rightarrow> 30000)"

definition maxMemoryMbOf :: "GenerateOptions \<Rightarrow> nat" where
  "maxMemoryMbOf options = (case maxMemoryMb options of Some n \<Rightarrow> n | None \<Rightarrow> 256)"

definition includeDeclarationMapOf :: "GenerateOptions \<Rightarrow> bool" where
  "includeDeclarationMapOf options =
     (case includeDeclarationMap options of Some b \<Rightarrow> b | None \<Rightarrow> False)"

text \<open>
  The options object of the program: \<open>declarationMap: includeDeclarationMap\<close> and the spread
  \<open>...(packageJson?.compilerOptions || {})\<close>.
\<close>

definition programOptions :: "bool \<Rightarrow> PackageJson option \<Rightarrow> CompilerOptions" where
  "programOptions includeMap packageJson =
     \<lparr> declarationMap = includeMap,
       manifestOverrides =
         (case packageJson of
            Some manifest \<Rightarrow>
              (case PackageJson.compilerOptions manifest of
                 Some overrides \<Rightarrow> if truthy overrides then Some overrides else None
               | None \<Rightarrow> None)
          | None \<Rightarrow> None) \<rparr>"

text \<open>
  Program construction: the options object, the virtual file store, the root names and the
  host, handed to \<open>ts.createProgram\<close>.
\<close>

definition buildProgram ::
  "Toolchain \<Rightarrow> LibraryTexts \<Rightarrow> FileInput list \<Rightarrow> PackageJson option \<Rightarrow> GenerateOptions
     \<Rightarrow> error + Program" where
  "buildProgram ts texts inputFiles packageJson options =
     (let resolveExternal = resolveExternalDependenciesOf options;
          includeMap = includeDeclarationMapOf options;
          compilerOptions = programOptions includeMap packageJson;
          fileMap = buildFileMap texts inputFiles resolveExternal packageJson;
          inputFileNames = map (\<lambda>f. normalizePath (name f)) inputFiles
      in createProgram ts inputFileNames compilerOptions (compilerHost fileMap resolveExternal))"

text \<open>
  The declaration map after \<open>program.emit()\<close>: \<open>declarationFiles\<close> starts as \<open>{}\<close> and takes
  the \<open>writeFile\<close> calls of the emit in order.
\<close>

definition emittedDeclarations :: "bool \<Rightarrow> (string \<times> string) list \<Rightarrow> Declarations" where
  "emittedDeclarations includeMap written =
     fold (\<lambda>(filename, text) d. writeFile includeMap d filename text) written []"

text \<open>
  The body of the \<open>try\<close> in the generation promise of \<open>generateMultiFileDeclarations\<close>. It
  ends with the result it returns, or with the fault that reaches the \<open>catch\<close> together with
  the warnings pushed so far.
  \<^verbatim>\<open>
  const program = ts.createProgram(inputFileNames, compilerOptions, compilerHost);
  const emitResult = program.emit();
  const allDiagnostics = ts.getPreEmitDiagnostics(program).concat(emitResult.diagnostics);
  const errors = allDiagnostics.filter((d) => d.category === ts.DiagnosticCategory.Error).map(...);
  // Collect warnings (non-error diagnostics)
  const emitWarnings = allDiagnostics
    .filter((d) => d.category === ts.DiagnosticCategory.Warning).map(...);
  warnings.push(...emitWarnings);
  const filteredDeclarations = filterToExports && packageJson
    ? filterRelevantDeclarations(declarationFiles, packageJson, program)
    : declarationFiles;
  return {
    files: filteredDeclarations, errors: errors, warnings: warnings,
    success: emitResult.emitSkipped === false && Object.keys(filteredDeclarations).length > 0,
  };
  \<close>
\<close>

definition tryGeneration ::
  "Toolchain \<Rightarrow> LibraryTexts \<Rightarrow> FileInput list \<Rightarrow> string option \<Rightarrow> GenerateOptions
     \<Rightarrow> (error \<times> string list) + DeclarationResult" where
  "tryGeneration ts texts inputFiles packageJsonContent options =
     (let filterExports = filterToExportsOf options;
          includeMap = includeDeclarationMapOf options;
          (packageJson, parseWarnings) = parseManifest ts inputFiles packageJsonContent
      in case buildProgram ts texts inputFiles packageJson options of
           Inl e \<Rightarrow> Inl (e, parseWarnings)
         | Inr program \<Rightarrow>
             (case emit program of
                Inl e \<Rightarrow> Inl (e, parseWarnings)
              | Inr (written, emitResult) \<Rightarrow>
                  (let declarationFiles = emittedDeclarations includeMap written
                   in case getPreEmitDiagnostics ts program of
                        Inl e \<Rightarrow> Inl (e, parseWarnings)
                      | Inr preEmit \<Rightarrow>
                          (let allDiagnostics = preEmit @ diagnostics emitResult;
                               allWarnings = parseWarnings @ formatWarnings ts allDiagnostics
                           in case (if filterExports \<and> packageJson \<noteq> None
                                    then filterRelevantDeclarations ts declarationFiles
                                           packageJson program
                                    else Inr declarationFiles) of
                                Inl e \<Rightarrow> Inl (e, allWarnings)
                              | Inr filteredDeclarations \<Rightarrow>
                                  Inr \<lparr> files = filteredDeclarations,
                                        errors = formatErrors ts allDiagnostics,
                                        success = (emitSkipped emitResult = False
                                                   \<and> length filteredDeclarations > 0),
                                        warnings = allWarnings \<rparr>))))"

text \<open>
  The generation promise of \<open>generateMultiFileDeclarations\<close>: the \<open>try\<close> with its \<open>catch\<close>.
  \<^verbatim>\<open>
  } catch (error) {
    return { files: {}, errors: [`Internal error: ${error.message}`], warnings, success: false };
  }
  \<close>
  The function returns the race of this promise with a timer that rejects after
  \<open>timeoutMs\<close>, modelled by \<open>raceWithTimeout\<close> below. Output on the console is left out.
\<close>

definition generateMultiFileDeclarations ::
  "Toolchain \<Rightarrow> LibraryTexts \<Rightarrow> FileInput list \<Rightarrow> string option \<Rightarrow> GenerateOptions
     \<Rightarrow> DeclarationResult" where
  "generateMultiFileDeclarations ts texts inputFiles packageJsonContent options =
     (case tryGeneration ts texts inputFiles packageJsonContent options of
        Inl (e, pushed) \<Rightarrow> internalError e pushed
      | Inr result \<Rightarrow> result)"

section \<open>The race with the timer\<close>

text \<open>
  \<^verbatim>\<open>
  // Create a timeout promise to handle long-running compilations
  const timeoutPromise = new Promise<DeclarationResult>((_, reject) => {
    setTimeout(() => {
      reject(new Error(`Declaration generation timed out after ${timeoutMs}ms`));
    }, timeoutMs);
  });
  ...
  const generationPromise = (async () => { try { ... } catch (error) { ... } })();
  // Race between generation and timeout
  return Promise.race([generationPromise, timeoutPromise]);
  \<close>
  A settled promise is fulfilled with a value or rejected with the message of an error. The
  generation promise is always fulfilled, since its \<open>catch\<close> returns a result; the timer
  promise can only be rejected. \<open>Promise.race\<close> settles as the promise that settles first,
  and which one does is the parameter \<open>Scheduling\<close>. The body of the generation promise
  contains no \<open>await\<close>, so in the source it has run to its end before \<open>Promise.race\<close> is
  called and the scheduling is \<open>GenerationFirst\<close>, however long the body took.
\<close>

datatype 'a Settled = Fulfilled 'a | Rejected string

datatype Scheduling = GenerationFirst | TimerFirst

definition timeoutPromise :: "nat \<Rightarrow> DeclarationResult Settled" where
  "timeoutPromise timeout =
     Rejected (''Declaration generation timed out after '' @ stringOfNat timeout @ ''ms'')"

definition generationPromise ::
  "Toolchain \<Rightarrow> LibraryTexts \<Rightarrow> FileInput list \<Rightarrow> string option \<Rightarrow> GenerateOptions
     \<Rightarrow> DeclarationResult Settled" where
  "generationPromise ts texts inputFiles packageJsonContent options =
     Fulfilled (generateMultiFileDeclarations ts texts inputFiles packageJsonContent options)"

definition promiseRace :: "Scheduling \<Rightarrow> 'a Settled \<Rightarrow> 'a Settled \<Rightarrow> 'a Settled" where
  "promiseRace scheduling generation timer =
     (case scheduling of GenerationFirst \<Rightarrow> generation | TimerFirst \<Rightarrow> timer)"

definition raceWithTimeout ::
  "Scheduling \<Rightarrow> Toolchain \<Rightarrow> LibraryTexts \<Rightarrow> FileInput list \<Rightarrow> string option
     \<Rightarrow> GenerateOptions \<Rightarrow> DeclarationResult Settled" where
  "raceWithTimeout scheduling ts texts inputFiles packageJsonContent options =
     promiseRace scheduling
       (generationPromise ts texts inputFiles packageJsonContent options)
       (timeoutPromise (timeoutMsOf options))"

section \<open>Example inputs\<close>

text \<open>
  Concrete inputs for the closed theorems below. The toolchain of the examples is a stub:
  its parser knows two manifest texts, its resolver finds \<open>./x\<close> as \<open>x.ts\<close> when the program
  has that file, and its program is handed in with the files its emit writes.
\<close>

definition emptyManifest :: PackageJson where
  "emptyManifest =
     \<lparr> PackageJson.name = None, exports = None, main = None, types = None, typings = None,
       dependencies = None, devDependencies = None, compilerOptions = None \<rparr>"

definition exampleTexts :: LibraryTexts where
  "exampleTexts =
     \<lparr> enhancedLibDeclaration = ''interface Object {}'',
       reactShim = ''declare namespace React {}'',
       lodashShim = ''declare module lodash {}'',
       genericShim = (\<lambda>dep. ''declare module '' @ dep @ '' {}'') \<rparr>"

definition sourceFileOf :: "string \<Rightarrow> Node list \<Rightarrow> SourceFile" where
  "sourceFileOf f nodes =
     \<lparr> fileName = f, children = nodes,
       getLineAndCharacterOfPosition = (\<lambda>position. (0, position)) \<rparr>"

definition exampleSources :: "Node list \<Rightarrow> (string \<times> SourceFile) list" where
  "exampleSources indexNodes =
     [(''index.ts'', sourceFileOf ''index.ts'' indexNodes),
      (''a.ts'', sourceFileOf ''a.ts'' [OtherNode]),
      (''b.ts'', sourceFileOf ''b.ts'' [OtherNode]),
      (''c.ts'', sourceFileOf ''c.ts'' [OtherNode])]"

definition exampleWritten :: "(string \<times> string) list" where
  "exampleWritten =
     [(''index.d.ts'', ''export * from './a'; export * from './b';''),
      (''a.d.ts'', ''export declare const a: number;''),
      (''b.d.ts'', ''export declare const b: number;''),
      (''c.d.ts'', ''export declare const c: number;'')]"

definition exampleDeclarations :: Declarations where
  "exampleDeclarations =
     [(''index.d.ts'', Text ''export * from './a'; export * from './b';''),
      (''a.d.ts'', Text ''export declare const a: number;''),
      (''b.d.ts'', Text ''export declare const b: number;''),
      (''c.d.ts'', Text ''export declare const c: number;'')]"

definition exampleProgram :: "Node list \<Rightarrow> (string \<times> string) list \<Rightarrow> bool \<Rightarrow> Program" where
  "exampleProgram indexNodes written skipped =
     \<lparr> getSourceFile = map_of (exampleSources indexNodes),
       getCompilerOptions = \<lparr> declarationMap = False, manifestOverrides = None \<rparr>,
       emit = Inr (written, \<lparr> emitSkipped = skipped, diagnostics = [] \<rparr>) \<rparr>"

definition exampleManifest :: PackageJson where
  "exampleManifest = emptyManifest \<lparr> main := Some ''./index.js'' \<rparr>"

definition exampleToolchain :: "Program \<Rightarrow> Diagnostic list \<Rightarrow> Toolchain" where
  "exampleToolchain program preEmit =
     \<lparr> JSON_parse = (\<lambda>text.
           if text = ''{main: ./index.js}'' then Inr (Some exampleManifest)
           else if text = ''{main: ./index.js, dependencies: {react: 18}}''
           then Inr (Some (exampleManifest \<lparr> dependencies := Some [(''react'', ''18'')] \<rparr>))
           else if text = ''null'' then Inr None
           else Inl ''Unexpected token''),
       createProgram = (\<lambda>rootNames options host. Inr program),
       getPreEmitDiagnostics = (\<lambda>p. Inr preEmit),
       resolveModuleName = (\<lambda>moduleName containingFile options exists.
           let candidate = normalizePath moduleName @ ''.ts''
           in if exists candidate then Some candidate else None),
       flattenDiagnosticMessageText = (\<lambda>message newLine.
           case message of MessageString s \<Rightarrow> s | MessageChain s next \<Rightarrow> s) \<rparr>"

definition exampleFiles :: "FileInput list" where
  "exampleFiles =
     [\<lparr> name = ''index.ts'', content = ''export * from './a'; export * from './b';'' \<rparr>,
      \<lparr> name = ''a.ts'', content = ''export const a = 1;'' \<rparr>,
      \<lparr> name = ''b.ts'', content = ''export const b = 2;'' \<rparr>,
      \<lparr> name = ''c.ts'', content = ''export const c = 3;'' \<rparr>]"

definition defaultOptions :: GenerateOptions where
  "defaultOptions =
     \<lparr> filterToExports = None, resolveExternalDependencies = None, timeoutMs = None,
       maxMemoryMb = None, includeDeclarationMap = None \<rparr>"

definition exampleDiagnostics :: "Diagnostic list" where
  "exampleDiagnostics =
     [\<lparr> category = Error, file = Some (sourceFileOf ''a.ts'' [OtherNode]), start = Some 4,
        messageText = MessageString ''Cannot find name x.'' \<rparr>,
      \<lparr> category = Message, file = None, start = None,
        messageText = MessageString ''Projects in this build'' \<rparr>,
      \<lparr> category = Warning, file = None, start = None,
        messageText = MessageString ''Unreachable code detected.'' \<rparr>]"

section \<open>The probe order, as a list\<close>

text \<open>
  The paths that \<open>resolveModuleNames\<close> tries for a relative specifier whose resolved path is
  \<open>resolvedPath\<close>, in the order it tries them: the path with \<open>.ts\<close>, \<open>.tsx\<close> and \<open>.d.ts\<close>
  appended (the path itself where it already ends so), the path itself, and the path with
  \<open>/index.ts\<close> appended.
\<close>

definition withExtension :: "string \<Rightarrow> string \<Rightarrow> string" where
  "withExtension resolvedPath ext =
     (if endsWith resolvedPath ext then resolvedPath else resolvedPath @ ext)"

definition probeOrder :: "string \<Rightarrow> string list" where
  "probeOrder resolvedPath =
     [withExtension resolvedPath ''.ts'', withExtension resolvedPath ''.tsx'',
      withExtension resolvedPath ''.d.ts'', resolvedPath, resolvedPath @ ''/index.ts'']"

text \<open>
  A path without a \<open>.\<close> or \<open>..\<close> segment: joining such a specifier to such a directory
  needs no collapsing of segments.
\<close>

definition dotFree :: "string \<Rightarrow> bool" where
  "dotFree path =
     (''.'' \<notin> set (splitOn CHR ''/'' path) \<and> ''..'' \<notin> set (splitOn CHR ''/'' path))"

definition examplePackageFile :: "string \<Rightarrow> FileInput" where
  "examplePackageFile text = \<lparr> name = ''package.json'', content = text \<rparr>"

section \<open>The keys of the shims\<close>

text \<open>
  The paths under which \<open>buildFileMap\<close> installs shims: those of the manifest's dependencies
  when shims are asked for and there is a manifest, none otherwise.
\<close>

definition shimKeys :: "bool \<Rightarrow> PackageJson option \<Rightarrow> string set" where
  "shimKeys resolveExternal packageJson =
     (if resolveExternal \<and> packageJson \<noteq> None
      then shimPath ` set (getExternalDependencies packageJson) else {})"

section \<open>Properties of the Path Normalizer\<close>

lemma normalizePath_fixed:
  "\<not> startsWith p ''./'' \<Longrightarrow> \<not> startsWith p ''/'' \<Longrightarrow> normalizePath p = p"
  by (simp add: normalizePath_def)

lemma normalizePath_shorter:
  "startsWith p ''./'' \<or> startsWith p ''/'' \<Longrightarrow> length (normalizePath p) < length p"
  by (cases p) (auto simp: normalizePath_def startsWith_def Let_def split: if_splits)

lemma normalizePath_fixed_iff:
  "normalizePath p = p \<longleftrightarrow> \<not> startsWith p ''./'' \<and> \<not> startsWith p ''/''"
proof
  assume eq: "normalizePath p = p"
  show "\<not> startsWith p ''./'' \<and> \<not> startsWith p ''/''"
  proof (rule ccontr)
    assume "\<not> ?thesis"
    then have "startsWith p ''./'' \<or> startsWith p ''/''" by blast
    then have "length (normalizePath p) < length p" by (rule normalizePath_shorter)
    with eq show False by simp
  qed
next
  assume "\<not> startsWith p ''./'' \<and> \<not> startsWith p ''/''"
  then show "normalizePath p = p" by (simp add: normalizePath_fixed)
qed

text \<open>
  C8, as stated: \<open>normalizePath\<close> is idempotent on every input. The path \<open>//a\<close> loses one
  slash at each application, so the second application changes the result of the first.
\<close>

theorem C8_normalizePath_not_idempotent:
  "normalizePath (normalizePath ''//a'') \<noteq> normalizePath ''//a''"
  by (simp add: normalizePath_def startsWith_def)

text \<open>
  C8, amended: a second application of \<open>normalizePath\<close> leaves the result of the first
  unchanged exactly when that result begins with neither \<open>./\<close> nor \<open>/\<close>.
\<close>

theorem C8_normalizePath_idempotent_iff:
  "normalizePath (normalizePath p) = normalizePath p \<longleftrightarrow>
     \<not> startsWith (normalizePath p) ''./'' \<and> \<not> startsWith (normalizePath p) ''/''"
  by (rule normalizePath_fixed_iff)

text \<open>C8, amended, at the path \<open>./src/a.ts\<close>.\<close>

theorem C8_normalizePath_idempotent_witness:
  "normalizePath (normalizePath ''./src/a.ts'') = normalizePath ''./src/a.ts''
   \<and> normalizePath ''./src/a.ts'' = ''src/a.ts''"
  using C8_normalizePath_idempotent_iff [of "''./src/a.ts''"]
  by (simp add: normalizePath_def startsWith_def)

section \<open>Properties of the Entry Point Resolver\<close>

text \<open>
  A condition object under a key that is not a subpath contributes each of its string
  values.
\<close>

lemma processEntries_condition_key:
  "\<not> startsWith key ''.'' \<Longrightarrow>
     processEntries ((key, JObj conditions) # rest) path entryPoints =
     processEntries rest path (entryPoints @ stringValues conditions)"
  by simp

lemma getPackageEntryPoints_condition_key:
  "getPackageEntryPoints
     (emptyManifest \<lparr> exports :=
        Some (JObj [(''import'', JObj [(''types'', JStr ''./dist/index.d.ts'')])]) \<rparr>)
   = Inr [''dist/index.ts'']"
  by (simp add: getPackageEntryPoints_def emptyManifest_def pushTypings_def startsWith_def
      toSourcePath_def normalizePath_def replaceSuffix_def endsWith_def)

text \<open>
  Under a subpath key the walk recurses into the condition object, and there a condition
  whose value is a string matches neither branch of the loop.
\<close>

lemma processEntries_string_condition:
  "\<not> startsWith key ''.'' \<Longrightarrow>
     processEntries ((key, JStr s) # rest) path entryPoints =
     processEntries rest path entryPoints"
  by simp

text \<open>
  C1, at the manifest of the claim: the only entry field is
  \<open>exports: {".": {"types": "./dist/index.d.ts"}}\<close>, and \<open>getPackageEntryPoints\<close> returns no
  entry point at all.
\<close>

theorem C1_subpath_condition_object_dropped:
  "getPackageEntryPoints
     (emptyManifest \<lparr> exports :=
        Some (JObj [(''.'', JObj [(''types'', JStr ''./dist/index.d.ts'')])]) \<rparr>)
   = Inr []"
  by (simp add: getPackageEntryPoints_def emptyManifest_def pushTypings_def startsWith_def)

section \<open>Properties of the Dependency-Closure Filter\<close>

text \<open>The walk follows import declarations only: a re-export resolves to no file.\<close>

lemma importedFileOf_export:
  "importedFileOf ts program sourceFile (ExportDeclaration specifier) = None"
  by (simp add: importedFileOf_def)

lemma visitChildren_no_imports:
  "\<forall>node \<in> set nodes. importedFileOf ts program sourceFile node = None \<Longrightarrow>
     visitChildren ts program allDeclarations sourceFile nodes relevantFiles = relevantFiles"
  by (induction nodes) simp_all

lemma addFileAndDependencies_no_imports:
  assumes "\<forall>node \<in> set (children sourceFile). importedFileOf ts program sourceFile node = None"
  shows "addFileAndDependencies ts program allDeclarations sourceFile relevantFiles
           = (if dtsPathOf (fileName sourceFile) \<in> set relevantFiles
                 \<or> \<not> hasDeclaration allDeclarations (dtsPathOf (fileName sourceFile))
              then relevantFiles
              else relevantFiles @ [dtsPathOf (fileName sourceFile)])"
  using visitChildren_no_imports [OF assms] by (simp add: Let_def)

text \<open>
  Whatever the toolchain resolves: when the one entry point is a source file without import
  declarations that has a declaration, the filter returns that declaration alone.
\<close>

lemma filter_entry_without_imports:
  assumes "getPackageEntryPoints manifest = Inr [entryPoint]"
    and "getSourceFile program entryPoint = Some sourceFile"
    and "\<forall>node \<in> set (children sourceFile). importedFileOf ts program sourceFile node = None"
    and "map_of allDeclarations (dtsPathOf (fileName sourceFile)) = Some (Text text)"
    and "text \<noteq> []"
    and "dtsPathOf (fileName sourceFile) \<noteq> ''__proto__''"
  shows "filterRelevantDeclarations ts allDeclarations (Some manifest) program
           = Inr [(dtsPathOf (fileName sourceFile), Text text)]"
  using assms
  by (simp add: filterRelevantDeclarations_def walkEntryPoints_def selectDeclarations_def
      addFileAndDependencies_no_imports hasDeclaration_def getProperty_def setProperty_def
      Let_def del: addFileAndDependencies.simps)

text \<open>
  With import declarations in \<open>index.ts\<close> the filter keeps the declarations of \<open>index\<close>,
  \<open>a\<close> and \<open>b\<close> and drops that of \<open>c\<close>.
\<close>

lemma filter_follows_imports:
  "filterRelevantDeclarations (exampleToolchain p []) exampleDeclarations (Some exampleManifest)
     (exampleProgram [ImportDeclaration (Some ''./a''), ImportDeclaration (Some ''./b''),
        OtherNode] exampleWritten False)
   = Inr [(''index.d.ts'', Text ''export * from './a'; export * from './b';''),
          (''a.d.ts'', Text ''export declare const a: number;''),
          (''b.d.ts'', Text ''export declare const b: number;'')]"
  by (simp add: filterRelevantDeclarations_def getPackageEntryPoints_def exampleManifest_def
      emptyManifest_def pushTypings_def toSourcePath_def normalizePath_def replaceSuffix_def
      endsWith_def startsWith_def walkEntryPoints_def exampleProgram_def exampleSources_def
      sourceFileOf_def dtsPathOf_def hasDeclaration_def getProperty_def setProperty_def exampleDeclarations_def exampleWritten_def
      importedFileOf_def exampleToolchain_def selectDeclarations_def Let_def)

text \<open>
  C2, at an \<open>index.ts\<close> that re-exports from \<open>./a\<close> and \<open>./b\<close>: the manifest's entry point
  is \<open>index.ts\<close>, \<open>filterToExports\<close> is on, the toolchain emits the four declaration files,
  and the files of the result are the declaration of \<open>index\<close> alone.
\<close>

theorem C2_reexports_not_followed:
  "generateMultiFileDeclarations
     (exampleToolchain
        (exampleProgram [ExportDeclaration (Some ''./a''), ExportDeclaration (Some ''./b''),
           OtherNode] exampleWritten False) [])
     exampleTexts exampleFiles (Some ''{main: ./index.js}'')
     (defaultOptions \<lparr> filterToExports := Some True \<rparr>)
   = \<lparr> files = [(''index.d.ts'', Text ''export * from './a'; export * from './b';'')],
       errors = [], success = True, warnings = [] \<rparr>"
  by (simp add: generateMultiFileDeclarations_def tryGeneration_def filterToExportsOf_def includeDeclarationMapOf_def resolveExternalDependenciesOf_def emittedDeclarations_def defaultOptions_def
      parseManifest_def buildProgram_def writeFile_def formatWarnings_def formatErrors_def
      filterRelevantDeclarations_def getPackageEntryPoints_def exampleManifest_def
      emptyManifest_def pushTypings_def toSourcePath_def normalizePath_def replaceSuffix_def
      endsWith_def startsWith_def walkEntryPoints_def exampleProgram_def exampleSources_def
      sourceFileOf_def dtsPathOf_def hasDeclaration_def getProperty_def setProperty_def exampleDeclarations_def exampleWritten_def
      importedFileOf_def exampleToolchain_def selectDeclarations_def Let_def)

lemma walkEntryPoints_unresolved:
  "\<forall>entryPoint \<in> set entryPoints. getSourceFile program entryPoint = None \<Longrightarrow>
     walkEntryPoints ts program allDeclarations entryPoints relevantFiles = relevantFiles"
  unfolding walkEntryPoints_def
  by (induction entryPoints arbitrary: relevantFiles) simp_all

text \<open>
  C5: \<open>filterRelevantDeclarations\<close> returns the whole declaration map when there is no
  manifest, when the manifest yields no entry point, and when the walk from the entry points
  leaves the set of relevant files empty, as it does when no entry point is a source file of
  the program.
\<close>

theorem C5_unfiltered_fallbacks:
  "filterRelevantDeclarations ts allDeclarations None program = Inr allDeclarations
   \<and> (getPackageEntryPoints manifest = Inr [] \<longrightarrow>
        filterRelevantDeclarations ts allDeclarations (Some manifest) program
          = Inr allDeclarations)
   \<and> (getPackageEntryPoints manifest = Inr entryPoints
        \<and> walkEntryPoints ts program allDeclarations entryPoints [] = [] \<longrightarrow>
        filterRelevantDeclarations ts allDeclarations (Some manifest) program
          = Inr allDeclarations)
   \<and> (getPackageEntryPoints manifest = Inr entryPoints
        \<and> (\<forall>entryPoint \<in> set entryPoints. getSourceFile program entryPoint = None) \<longrightarrow>
        filterRelevantDeclarations ts allDeclarations (Some manifest) program
          = Inr allDeclarations)"
  by (simp add: filterRelevantDeclarations_def walkEntryPoints_unresolved)

text \<open>
  C5, at a manifest with no entry field, and at a manifest whose \<open>main\<close> is
  \<open>dist/index.js\<close> while the program has no \<open>dist/index.ts\<close>.
\<close>

theorem C5_unfiltered_fallbacks_witness:
  "getPackageEntryPoints emptyManifest = Inr []
   \<and> filterRelevantDeclarations (exampleToolchain (exampleProgram [] exampleWritten False) [])
        exampleDeclarations (Some emptyManifest) (exampleProgram [] exampleWritten False)
      = Inr exampleDeclarations
   \<and> getPackageEntryPoints (emptyManifest \<lparr> main := Some ''dist/index.js'' \<rparr>)
      = Inr [''dist/index.ts'']
   \<and> getSourceFile (exampleProgram [] exampleWritten False) ''dist/index.ts'' = None
   \<and> filterRelevantDeclarations (exampleToolchain (exampleProgram [] exampleWritten False) [])
        exampleDeclarations (Some (emptyManifest \<lparr> main := Some ''dist/index.js'' \<rparr>))
        (exampleProgram [] exampleWritten False)
      = Inr exampleDeclarations"
proof -
  have none: "getPackageEntryPoints emptyManifest = Inr []"
    by (simp add: getPackageEntryPoints_def emptyManifest_def pushTypings_def)
  have dist: "getPackageEntryPoints (emptyManifest \<lparr> main := Some ''dist/index.js'' \<rparr>)
      = Inr [''dist/index.ts'']"
    by (simp add: getPackageEntryPoints_def emptyManifest_def pushTypings_def toSourcePath_def
        normalizePath_def replaceSuffix_def endsWith_def startsWith_def)
  have missing: "\<forall>entryPoint \<in> set [''dist/index.ts''].
         getSourceFile (exampleProgram [] exampleWritten False) entryPoint = None"
    by (simp add: exampleProgram_def exampleSources_def)
  from C5_unfiltered_fallbacks
         [of "exampleToolchain (exampleProgram [] exampleWritten False) []"
             exampleDeclarations "exampleProgram [] exampleWritten False"
             emptyManifest "[]"]
       C5_unfiltered_fallbacks
         [of "exampleToolchain (exampleProgram [] exampleWritten False) []"
             exampleDeclarations "exampleProgram [] exampleWritten False"
             "emptyManifest \<lparr> main := Some ''dist/index.js'' \<rparr>" "[''dist/index.ts'']"]
       none dist missing
  show ?thesis by simp
qed

text \<open>
  A name that every plain object inherits counts as a declaration: for a source file named
  \<open>constructor\<close> the walk is not empty, and the filter copies the inherited member.
\<close>

lemma hasDeclaration_inherited: "hasDeclaration [] ''constructor''"
  by (simp add: hasDeclaration_def getProperty_def objectPrototypeKeys_def)

lemma filter_inherited_property:
  "filterRelevantDeclarations ts exampleDeclarations
     (Some (emptyManifest \<lparr> main := Some ''constructor'' \<rparr>))
     \<lparr> getSourceFile = map_of [(''constructor'', sourceFileOf ''constructor'' [])],
       getCompilerOptions = \<lparr> declarationMap = False, manifestOverrides = None \<rparr>,
       emit = Inr ([], \<lparr> emitSkipped = False, diagnostics = [] \<rparr>) \<rparr>
   = Inr [(''constructor'', Inherited ''constructor'')]"
  by (simp add: filterRelevantDeclarations_def getPackageEntryPoints_def emptyManifest_def
      pushTypings_def toSourcePath_def normalizePath_def replaceSuffix_def endsWith_def
      startsWith_def walkEntryPoints_def sourceFileOf_def dtsPathOf_def hasDeclaration_def
      getProperty_def setProperty_def objectPrototypeKeys_def exampleDeclarations_def
      selectDeclarations_def Let_def)

section \<open>Properties of the Compiler Host Adapter\<close>

lemma probeExtensions_find:
  "probeExtensions fileMap resolvedPath exts
     = List.find (has fileMap) (map (withExtension resolvedPath) exts)"
  by (induction exts) (simp_all add: withExtension_def Let_def)

lemma withExtension_empty: "withExtension resolvedPath [] = resolvedPath"
  by (simp add: withExtension_def endsWith_def)

lemma probePaths_find:
  "probePaths fileMap resolvedPath = List.find (has fileMap) (probeOrder resolvedPath)"
  by (simp add: probePaths_def probeExtensions_find probeOrder_def withExtension_empty
      Let_def split: option.splits)

lemma resolveModuleNames_length:
  "length (resolveModuleNames (compilerHost fileMap resolveExternal) moduleNames containingFile)
     = length moduleNames"
  by (simp add: compilerHost_def)

lemma resolveModuleNames_nth:
  "i < length moduleNames \<Longrightarrow>
     resolveModuleNames (compilerHost fileMap resolveExternal) moduleNames containingFile ! i
       = resolveModule fileMap resolveExternal containingFile (moduleNames ! i)"
  by (simp add: compilerHost_def)

lemma resolveModule_probes:
  "startsWith moduleName ''.'' \<Longrightarrow>
     resolveModule fileMap resolveExternal containingFile moduleName
       = probePaths fileMap (normalizePath (containingDirOf containingFile @ ''/'' @ moduleName))"
  by (simp add: resolveModule_def Let_def)

text \<open>
  The directory and the specifier are joined as they are: \<open>./a\<close> imported from
  \<open>src/index.ts\<close> is probed as \<open>src/./a\<close>, which no submitted file \<open>src/a.ts\<close> is
  registered under.
\<close>

lemma relative_import_not_collapsed:
  "resolveModuleNames
     (compilerHost (registerFiles [\<lparr> name = ''src/index.ts'', content = ''I'' \<rparr>,
                                   \<lparr> name = ''src/a.ts'', content = ''A'' \<rparr>] []) True)
     [''./a''] ''src/index.ts''
   = [None]"
  by (simp add: registerFiles_def compilerHost_def resolveModule_def probePaths_def
      containingDirOf_def normalizePath_def startsWith_def endsWith_def has_def Let_def)

text \<open>
  C4, as stated: the literal resolved path is probed first, so it is the result when it and
  an extension-appended path are both in the store. The files \<open>src/.cfg\<close> and
  \<open>src/.cfg.ts\<close> are submitted and \<open>.cfg\<close> is imported from \<open>src/index.ts\<close>: the resolved
  path \<open>src/.cfg\<close> is in the store, and the specifier resolves to \<open>src/.cfg.ts\<close>.
\<close>

theorem C4_literal_path_not_first:
  "has (registerFiles [\<lparr> name = ''src/.cfg'', content = ''A'' \<rparr>,
                       \<lparr> name = ''src/.cfg.ts'', content = ''B'' \<rparr>] []) ''src/.cfg''
   \<and> normalizePath (containingDirOf ''src/index.ts'' @ ''/'' @ ''.cfg'') = ''src/.cfg''
   \<and> resolveModuleNames
        (compilerHost (registerFiles [\<lparr> name = ''src/.cfg'', content = ''A'' \<rparr>,
                                      \<lparr> name = ''src/.cfg.ts'', content = ''B'' \<rparr>] []) True)
        [''.cfg''] ''src/index.ts''
      = [Some ''src/.cfg.ts'']"
  by (simp add: registerFiles_def compilerHost_def resolveModule_def probePaths_def
      containingDirOf_def normalizePath_def startsWith_def endsWith_def has_def Let_def)

text \<open>
  C4, amended: for every resolved path the host answers with the first path of \<open>probeOrder\<close>
  that the store has, that is the path with \<open>.ts\<close>, \<open>.tsx\<close>, \<open>.d.ts\<close> appended, then the
  path itself, then the path with \<open>/index.ts\<close> appended; when the \<open>.ts\<close> path is in the
  store it is the result, whether or not the literal path is there too, and when none of the
  paths is in the store the answer is \<open>undefined\<close>. \<open>resolveModuleNames\<close> answers one entry
  for each module name, and for each relative one the result of these probes on some path;
  for a specifier without a \<open>.\<close> or \<open>..\<close> segment, imported from a file whose path has none,
  that path is the directory of the file joined with the specifier.
\<close>

theorem C4_probe_order:
  "probePaths fileMap resolvedPath = List.find (has fileMap) (probeOrder resolvedPath)
   \<and> (has fileMap (withExtension resolvedPath ''.ts'') \<longrightarrow>
        probePaths fileMap resolvedPath = Some (withExtension resolvedPath ''.ts''))
   \<and> ((\<forall>p \<in> set (probeOrder resolvedPath). \<not> has fileMap p) \<longrightarrow>
        probePaths fileMap resolvedPath = None)
   \<and> length (resolveModuleNames (compilerHost fileMap resolveExternal) moduleNames
               containingFile) = length moduleNames
   \<and> (\<forall>i < length moduleNames. startsWith (moduleNames ! i) ''.'' \<longrightarrow>
        (\<exists>path. resolveModuleNames (compilerHost fileMap resolveExternal) moduleNames
                  containingFile ! i = probePaths fileMap path))
   \<and> (\<forall>i < length moduleNames.
        startsWith (moduleNames ! i) ''.'' \<and> dotFree (moduleNames ! i)
        \<and> dotFree containingFile \<longrightarrow>
        resolveModuleNames (compilerHost fileMap resolveExternal) moduleNames containingFile ! i
          = probePaths fileMap
              (normalizePath (containingDirOf containingFile @ ''/'' @ moduleNames ! i)))"
proof (intro conjI allI impI)
  show "probePaths fileMap resolvedPath = List.find (has fileMap) (probeOrder resolvedPath)"
    by (rule probePaths_find)
  show "probePaths fileMap resolvedPath = Some (withExtension resolvedPath ''.ts'')"
    if "has fileMap (withExtension resolvedPath ''.ts'')"
    using that by (simp add: probePaths_find probeOrder_def)
  show "probePaths fileMap resolvedPath = None"
    if "\<forall>p \<in> set (probeOrder resolvedPath). \<not> has fileMap p"
    using that by (simp add: probePaths_find find_None_iff)
  show "length (resolveModuleNames (compilerHost fileMap resolveExternal) moduleNames
               containingFile) = length moduleNames"
    by (rule resolveModuleNames_length)
next
  fix i assume "i < length moduleNames" and "startsWith (moduleNames ! i) ''.''"
  then show "\<exists>path. resolveModuleNames (compilerHost fileMap resolveExternal) moduleNames
                  containingFile ! i = probePaths fileMap path"
    by (auto simp: resolveModuleNames_nth resolveModule_probes)
next
  fix i assume "i < length moduleNames"
    and "startsWith (moduleNames ! i) ''.'' \<and> dotFree (moduleNames ! i)
        \<and> dotFree containingFile"
  then show "resolveModuleNames (compilerHost fileMap resolveExternal) moduleNames
        containingFile ! i
          = probePaths fileMap
              (normalizePath (containingDirOf containingFile @ ''/'' @ moduleNames ! i))"
    by (simp add: resolveModuleNames_nth resolveModule_probes)
qed

lemma list_of_three:
  "length xs = 3 \<Longrightarrow> xs ! 0 = a \<Longrightarrow> xs ! 1 = b \<Longrightarrow> xs ! 2 = c \<Longrightarrow> xs = [a, b, c]"
  by (auto simp: length_Suc_conv eval_nat_numeral)

text \<open>
  C4, amended, at a store with \<open>src/.cfg\<close>, \<open>src/.cfg.tsx\<close> and \<open>src/.env/index.ts\<close> and
  the specifiers \<open>.cfg\<close>, \<open>.env\<close> and \<open>.none\<close> imported from \<open>src/index.ts\<close>.
\<close>

theorem C4_probe_order_witness:
  "resolveModuleNames
     (compilerHost (registerFiles [\<lparr> name = ''src/.cfg'', content = ''A'' \<rparr>,
                                   \<lparr> name = ''src/.cfg.tsx'', content = ''B'' \<rparr>,
                                   \<lparr> name = ''src/.env/index.ts'', content = ''C'' \<rparr>] []) True)
     [''.cfg'', ''.env'', ''.none''] ''src/index.ts''
   = [Some ''src/.cfg.tsx'', Some ''src/.env/index.ts'', None]"
proof -
  let ?store = "registerFiles [\<lparr> name = ''src/.cfg'', content = ''A'' \<rparr>,
                               \<lparr> name = ''src/.cfg.tsx'', content = ''B'' \<rparr>,
                               \<lparr> name = ''src/.env/index.ts'', content = ''C'' \<rparr>] []"
  let ?names = "[''.cfg'', ''.env'', ''.none'']"
  let ?result = "resolveModuleNames (compilerHost ?store True) ?names ''src/index.ts''"
  note order = C4_probe_order [of ?store _ True ?names "''src/index.ts''"]
  have plain: "dotFree ''src/index.ts''" "dotFree ''.cfg''" "dotFree ''.env''" "dotFree ''.none''"
    by (simp_all add: dotFree_def)
  have paths: "normalizePath (containingDirOf ''src/index.ts'' @ ''/'' @ s) = ''src/'' @ s" for s
    by (simp add: containingDirOf_def normalizePath_def startsWith_def)
  have len: "length ?result = 3"
    using order by simp
  have each: "?result ! i = probePaths ?store (''src/'' @ ?names ! i)" if "i < 3" for i
  proof -
    from that have "i = 0 \<or> i = 1 \<or> i = 2" by auto
    then have "startsWith (?names ! i) ''.'' \<and> dotFree (?names ! i)"
      using plain by (auto simp: startsWith_def)
    with order that plain(1) paths show ?thesis by simp
  qed
  have probes: "probePaths ?store p = List.find (has ?store) (probeOrder p)" for p
    using C4_probe_order [of ?store p True ?names "''src/index.ts''"] by blast
  have found: "?result ! i = List.find (has ?store) (probeOrder (''src/'' @ ?names ! i))"
    if "i < 3" for i
    using each [OF that] probes by simp
  have r0: "?result ! 0 = Some ''src/.cfg.tsx''"
  proof -
    have "?result ! 0 = List.find (has ?store) (probeOrder ''src/.cfg'')"
      using found [of 0] by simp
    also have "\<dots> = Some ''src/.cfg.tsx''"
      by (simp add: probeOrder_def withExtension_def endsWith_def registerFiles_def
          normalizePath_def startsWith_def has_def)
    finally show ?thesis .
  qed
  have r1: "?result ! 1 = Some ''src/.env/index.ts''"
  proof -
    have "?result ! 1 = List.find (has ?store) (probeOrder ''src/.env'')"
      using found [of 1] by simp
    also have "\<dots> = Some ''src/.env/index.ts''"
      by (simp add: probeOrder_def withExtension_def endsWith_def registerFiles_def
          normalizePath_def startsWith_def has_def)
    finally show ?thesis .
  qed
  have r2: "?result ! 2 = None"
  proof -
    have "?result ! 2 = List.find (has ?store) (probeOrder ''src/.none'')"
      using found [of 2] by simp
    also have "\<dots> = None"
      by (simp add: probeOrder_def withExtension_def endsWith_def registerFiles_def
          normalizePath_def startsWith_def has_def)
    finally show ?thesis .
  qed
  from list_of_three [OF len r0 r1 r2] show ?thesis .
qed

section \<open>Properties of the virtual file store\<close>

lemma normalizePath_shimPath: "normalizePath (shimPath dep) = shimPath dep"
  by (simp add: normalizePath_def shimPath_def startsWith_def)

lemma keys_registerFiles:
  "fst ` set (registerFiles inputFiles fileMap)
     = fst ` set fileMap \<union> (\<lambda>f. normalizePath (name f)) ` set inputFiles"
  unfolding registerFiles_def
  by (induction inputFiles arbitrary: fileMap) (auto simp: dom_update)

lemma distinct_registerFiles:
  "distinct (map fst fileMap) \<Longrightarrow> distinct (map fst (registerFiles inputFiles fileMap))"
  unfolding registerFiles_def
  by (induction inputFiles arbitrary: fileMap) (simp_all add: distinct_update)

lemma find_snoc:
  "find P (xs @ [x])
     = (case find P xs of Some y \<Rightarrow> Some y | None \<Rightarrow> if P x then Some x else None)"
  by (induction xs) simp_all

lemma map_of_registerFiles:
  "map_of (registerFiles inputFiles fileMap) p
     = (case find (\<lambda>f. normalizePath (name f) = p) (rev inputFiles) of
          Some f \<Rightarrow> Some (content f)
        | None \<Rightarrow> map_of fileMap p)"
  unfolding registerFiles_def
proof (induction inputFiles arbitrary: fileMap)
  case Nil
  show ?case by simp
next
  case (Cons f inputFiles)
  show ?case
    by (simp add: Cons.IH find_snoc update_conv' split: option.splits)
qed

lemma keys_shims:
  "fst ` set (fold (\<lambda>dep shims. AList.update (shimPath dep) (shimText texts dep) shims) deps acc)
     = fst ` set acc \<union> shimPath ` set deps"
  by (induction deps arbitrary: acc) (auto simp: dom_update)

lemma keys_createExternalDependencyShims:
  "fst ` set (createExternalDependencyShims texts deps) = shimPath ` set deps"
  by (simp add: createExternalDependencyShims_def keys_shims)

lemma keys_install:
  "fst ` set (fold (\<lambda>(path, text) m. AList.update path text m) shims fileMap)
     = fst ` set fileMap \<union> fst ` set shims"
proof (induction shims arbitrary: fileMap)
  case Nil
  show ?case by simp
next
  case (Cons s shims)
  have "fst ` set (AList.update (fst s) (snd s) fileMap) \<union> fst ` set shims
          = fst ` set fileMap \<union> fst ` set (s # shims)"
    unfolding dom_update by auto
  with Cons.IH [of "AList.update (fst s) (snd s) fileMap"] show ?case
    by (simp add: case_prod_unfold)
qed

lemma distinct_install:
  "distinct (map fst fileMap) \<Longrightarrow>
     distinct (map fst (fold (\<lambda>(path, text) m. AList.update path text m) shims fileMap))"
  by (induction shims arbitrary: fileMap) (auto simp: distinct_update)

lemma map_of_install:
  "p \<notin> fst ` set shims \<Longrightarrow>
     map_of (fold (\<lambda>(path, text) m. AList.update path text m) shims fileMap) p
       = map_of fileMap p"
  by (induction shims arbitrary: fileMap) (auto simp: update_conv')

lemma shimPath_inject: "shimPath a = shimPath b \<longleftrightarrow> a = b"
  by (simp add: shimPath_def)

lemma map_of_shims_other:
  "k \<notin> shimPath ` set deps \<Longrightarrow>
     map_of (fold (\<lambda>dep shims. AList.update (shimPath dep) (shimText texts dep) shims) deps acc) k
       = map_of acc k"
  by (induction deps arbitrary: acc) (auto simp: update_conv')

lemma map_of_shims:
  "dep \<in> set deps \<Longrightarrow>
     map_of (fold (\<lambda>dep shims. AList.update (shimPath dep) (shimText texts dep) shims) deps acc)
       (shimPath dep) = Some (shimText texts dep)"
proof (induction deps arbitrary: acc)
  case Nil
  then show ?case by simp
next
  case (Cons x deps)
  show ?case
  proof (cases "dep \<in> set deps")
    case True
    then show ?thesis by (simp add: Cons.IH)
  next
    case False
    with Cons.prems have "dep = x" by simp
    moreover from False have "shimPath dep \<notin> shimPath ` set deps"
      by (auto simp: shimPath_inject)
    ultimately show ?thesis by (simp add: map_of_shims_other update_conv')
  qed
qed

lemma distinct_shims:
  "distinct (map fst acc) \<Longrightarrow>
     distinct (map fst (fold (\<lambda>dep shims. AList.update (shimPath dep) (shimText texts dep) shims)
                          deps acc))"
  by (induction deps arbitrary: acc) (simp_all add: distinct_update)

lemma map_of_install_present:
  "distinct (map fst shims) \<Longrightarrow> map_of shims k = Some v \<Longrightarrow>
     map_of (fold (\<lambda>(path, text) m. AList.update path text m) shims fileMap) k = Some v"
proof (induction shims arbitrary: fileMap)
  case Nil
  then show ?case by simp
next
  case (Cons s shims)
  obtain a b where s: "s = (a, b)" by (cases s)
  show ?case
  proof (cases "k = a")
    case True
    with Cons.prems s have "v = b" and "k \<notin> fst ` set shims" by auto
    then show ?thesis using True s
      by (simp add: map_of_install update_conv')
  next
    case False
    with Cons.prems s show ?thesis by (simp add: Cons.IH)
  qed
qed

lemma store_holds_shims:
  assumes "dep \<in> set (getExternalDependencies packageJson)" and "packageJson \<noteq> None"
  shows "map_of (buildFileMap texts inputFiles True packageJson) (shimPath dep)
           = Some (shimText texts dep)"
proof -
  have "map_of (createExternalDependencyShims texts (getExternalDependencies packageJson))
          (shimPath dep) = Some (shimText texts dep)"
    unfolding createExternalDependencyShims_def by (rule map_of_shims [OF assms(1)])
  moreover have "distinct (map fst
      (createExternalDependencyShims texts (getExternalDependencies packageJson)))"
    unfolding createExternalDependencyShims_def by (rule distinct_shims) simp
  ultimately show ?thesis
    using assms(2) by (simp add: buildFileMap_def Let_def map_of_install_present)
qed

lemma store_holds_library:
  "map_of (buildFileMap texts inputFiles resolveExternal packageJson) ''lib.d.ts''
     = Some (enhancedLibDeclaration texts)"
proof -
  have "''lib.d.ts'' \<notin> shimPath ` set deps" for deps
    by (auto simp: shimPath_def)
  then show ?thesis
    by (simp add: buildFileMap_def Let_def map_of_install keys_createExternalDependencyShims
        update_conv')
qed

text \<open>
  C10, as stated: every key of the store is a fixed point of \<open>normalizePath\<close>, and of two
  submitted files with the same normalized name the store holds the content of the later
  one. The file \<open>//a.ts\<close> is registered under \<open>/a.ts\<close>, which \<open>normalizePath\<close> changes; and
  the files \<open>lib.d.ts\<close> and \<open>./lib.d.ts\<close> share the key \<open>lib.d.ts\<close>, which holds the
  baseline library and the content of neither.
\<close>

theorem C10_store_key_not_normalized:
  "''/a.ts'' \<in> fst ` set (buildFileMap exampleTexts [\<lparr> name = ''//a.ts'', content = ''x'' \<rparr>]
                              True None)
   \<and> normalizePath ''/a.ts'' \<noteq> ''/a.ts''
   \<and> normalizePath ''lib.d.ts'' = normalizePath ''./lib.d.ts''
   \<and> map_of (buildFileMap exampleTexts
               [\<lparr> name = ''lib.d.ts'', content = ''A'' \<rparr>,
                \<lparr> name = ''./lib.d.ts'', content = ''B'' \<rparr>] True None) ''lib.d.ts''
      = Some ''interface Object {}''"
  by (simp add: buildFileMap_def registerFiles_def normalizePath_def startsWith_def
      exampleTexts_def)

text \<open>
  C10, amended: every key of the store is \<open>lib.d.ts\<close>, a shim path or the normalized name of
  a submitted file, each key once; \<open>lib.d.ts\<close>, the shim paths and every normalized name that
  is a fixed point of \<open>normalizePath\<close> are keys. When every submitted name normalizes to a
  fixed point (a path that begins with neither \<open>./\<close> nor \<open>/\<close>), every key of the store is a
  fixed point. Under \<open>lib.d.ts\<close> the store holds the baseline library and under the path of
  a shim the text of the shim, whatever was submitted; under any other fixed point it holds
  the content of the last submitted file whose name normalizes to that path.
\<close>

theorem C10_store_keys:
  "(\<forall>k \<in> fst ` set (buildFileMap texts inputFiles resolveExternal packageJson).
      k = ''lib.d.ts'' \<or> k \<in> shimKeys resolveExternal packageJson
      \<or> (\<exists>f \<in> set inputFiles. k = normalizePath (name f)))
   \<and> ''lib.d.ts'' \<in> fst ` set (buildFileMap texts inputFiles resolveExternal packageJson)
   \<and> shimKeys resolveExternal packageJson
        \<subseteq> fst ` set (buildFileMap texts inputFiles resolveExternal packageJson)
   \<and> (\<forall>f \<in> set inputFiles.
         normalizePath (normalizePath (name f)) = normalizePath (name f) \<longrightarrow>
         normalizePath (name f)
           \<in> fst ` set (buildFileMap texts inputFiles resolveExternal packageJson))
   \<and> distinct (map fst (buildFileMap texts inputFiles resolveExternal packageJson))
   \<and> ((\<forall>f \<in> set inputFiles.
          normalizePath (normalizePath (name f)) = normalizePath (name f)) \<longrightarrow>
        (\<forall>k \<in> fst ` set (buildFileMap texts inputFiles resolveExternal packageJson).
           normalizePath k = k))
   \<and> (\<forall>f \<in> set inputFiles.
         normalizePath (normalizePath (name f)) = normalizePath (name f) \<longleftrightarrow>
         \<not> startsWith (normalizePath (name f)) ''./''
         \<and> \<not> startsWith (normalizePath (name f)) ''/'')
   \<and> map_of (buildFileMap texts inputFiles resolveExternal packageJson) ''lib.d.ts''
       = Some (enhancedLibDeclaration texts)
   \<and> (\<forall>dep \<in> set (getExternalDependencies packageJson).
         resolveExternal \<and> packageJson \<noteq> None \<longrightarrow>
         map_of (buildFileMap texts inputFiles resolveExternal packageJson) (shimPath dep)
           = Some (shimText texts dep))
   \<and> (\<forall>p. normalizePath p = p \<and> p \<noteq> ''lib.d.ts''
            \<and> p \<notin> shimKeys resolveExternal packageJson \<longrightarrow>
         map_of (buildFileMap texts inputFiles resolveExternal packageJson) p
           = map_option content (find (\<lambda>f. normalizePath (name f) = p) (rev inputFiles)))"
proof -
  let ?store = "buildFileMap texts inputFiles resolveExternal packageJson"
  have keys: "fst ` set ?store
     = (\<lambda>f. normalizePath (name f)) ` set inputFiles \<union> {''lib.d.ts''}
       \<union> shimKeys resolveExternal packageJson"
    by (auto simp: buildFileMap_def shimKeys_def keys_install keys_registerFiles dom_update
        keys_createExternalDependencyShims Let_def)
  have dist: "distinct (map fst ?store)"
    by (simp add: buildFileMap_def distinct_install distinct_registerFiles distinct_update
        Let_def)
  have lib: "normalizePath ''lib.d.ts'' = ''lib.d.ts''"
    by (simp add: normalizePath_def startsWith_def)
  have shim: "normalizePath k = k" if "k \<in> shimKeys resolveExternal packageJson" for k
    using that by (auto simp: shimKeys_def normalizePath_shimPath split: if_splits)
  have fixed: "\<forall>k \<in> fst ` set ?store. normalizePath k = k"
    if "\<forall>f \<in> set inputFiles.
          normalizePath (normalizePath (name f)) = normalizePath (name f)"
    using that lib shim unfolding keys by auto
  have shims: "map_of ?store (shimPath dep) = Some (shimText texts dep)"
    if "dep \<in> set (getExternalDependencies packageJson)"
      and "resolveExternal \<and> packageJson \<noteq> None" for dep
    using that by (simp add: store_holds_shims)
  have others: "map_of ?store p
           = map_option content (find (\<lambda>f. normalizePath (name f) = p) (rev inputFiles))"
    if "p \<noteq> ''lib.d.ts''" and "p \<notin> shimKeys resolveExternal packageJson" for p
    using that
    by (auto simp: buildFileMap_def shimKeys_def map_of_install map_of_registerFiles update_conv'
        keys_createExternalDependencyShims Let_def split: option.splits)
  have c1: "\<forall>k \<in> fst ` set ?store.
      k = ''lib.d.ts'' \<or> k \<in> shimKeys resolveExternal packageJson
      \<or> (\<exists>f \<in> set inputFiles. k = normalizePath (name f))"
    unfolding keys by blast
  have c2: "''lib.d.ts'' \<in> fst ` set ?store"
    unfolding keys by simp
  have c3: "shimKeys resolveExternal packageJson \<subseteq> fst ` set ?store"
    unfolding keys by blast
  have c4: "\<forall>f \<in> set inputFiles.
         normalizePath (normalizePath (name f)) = normalizePath (name f) \<longrightarrow>
         normalizePath (name f) \<in> fst ` set ?store"
    unfolding keys by blast
  have c6: "(\<forall>f \<in> set inputFiles.
          normalizePath (normalizePath (name f)) = normalizePath (name f)) \<longrightarrow>
        (\<forall>k \<in> fst ` set ?store. normalizePath k = k)"
    using fixed by (rule impI)
  have c7: "\<forall>f \<in> set inputFiles.
         normalizePath (normalizePath (name f)) = normalizePath (name f) \<longleftrightarrow>
         \<not> startsWith (normalizePath (name f)) ''./''
         \<and> \<not> startsWith (normalizePath (name f)) ''/''"
    by (simp add: normalizePath_fixed_iff)
  have c8: "map_of ?store ''lib.d.ts'' = Some (enhancedLibDeclaration texts)"
    by (rule store_holds_library)
  have c9: "\<forall>dep \<in> set (getExternalDependencies packageJson).
         resolveExternal \<and> packageJson \<noteq> None \<longrightarrow>
         map_of ?store (shimPath dep) = Some (shimText texts dep)"
    using shims by blast
  have c10: "\<forall>p. normalizePath p = p \<and> p \<noteq> ''lib.d.ts''
            \<and> p \<notin> shimKeys resolveExternal packageJson \<longrightarrow>
         map_of ?store p
           = map_option content (find (\<lambda>f. normalizePath (name f) = p) (rev inputFiles))"
    using others by blast
  from c1 c2 c3 c4 dist c6 c7 c8 c9 c10 show ?thesis
    by (intro conjI)
qed

text \<open>
  C10, amended, at the files \<open>a.ts\<close>, \<open>lib.d.ts\<close> and \<open>./a.ts\<close> with a manifest that
  depends on \<open>react\<close>.
\<close>

theorem C10_store_keys_witness:
  "fst ` set (buildFileMap exampleTexts
               [\<lparr> name = ''a.ts'', content = ''first'' \<rparr>,
                \<lparr> name = ''lib.d.ts'', content = ''mine'' \<rparr>,
                \<lparr> name = ''./a.ts'', content = ''second'' \<rparr>] True
               (Some (emptyManifest \<lparr> dependencies := Some [(''react'', ''18'')] \<rparr>)))
      = {''a.ts'', ''lib.d.ts'', ''node_modules/react/index.d.ts''}
   \<and> map_of (buildFileMap exampleTexts
               [\<lparr> name = ''a.ts'', content = ''first'' \<rparr>,
                \<lparr> name = ''lib.d.ts'', content = ''mine'' \<rparr>,
                \<lparr> name = ''./a.ts'', content = ''second'' \<rparr>] True
               (Some (emptyManifest \<lparr> dependencies := Some [(''react'', ''18'')] \<rparr>))) ''a.ts''
      = Some ''second''
   \<and> map_of (buildFileMap exampleTexts
               [\<lparr> name = ''a.ts'', content = ''first'' \<rparr>,
                \<lparr> name = ''lib.d.ts'', content = ''mine'' \<rparr>,
                \<lparr> name = ''./a.ts'', content = ''second'' \<rparr>] True
               (Some (emptyManifest \<lparr> dependencies := Some [(''react'', ''18'')] \<rparr>)))
        ''lib.d.ts''
      = Some ''interface Object {}''
   \<and> map_of (buildFileMap exampleTexts
               [\<lparr> name = ''a.ts'', content = ''first'' \<rparr>,
                \<lparr> name = ''lib.d.ts'', content = ''mine'' \<rparr>,
                \<lparr> name = ''./a.ts'', content = ''second'' \<rparr>] True
               (Some (emptyManifest \<lparr> dependencies := Some [(''react'', ''18'')] \<rparr>)))
        ''node_modules/react/index.d.ts''
      = Some ''declare namespace React {}''"
proof -
  let ?m = "Some (emptyManifest \<lparr> dependencies := Some [(''react'', ''18'')] \<rparr>)"
  let ?fs = "[\<lparr> name = ''a.ts'', content = ''first'' \<rparr>,
              \<lparr> name = ''lib.d.ts'', content = ''mine'' \<rparr>,
              \<lparr> name = ''./a.ts'', content = ''second'' \<rparr>]"
  let ?store = "buildFileMap exampleTexts ?fs True ?m"
  note store = C10_store_keys [of exampleTexts ?fs True ?m]
  note k1 = store [THEN conjunct1]
  note k2 = store [THEN conjunct2, THEN conjunct1]
  note k3 = store [THEN conjunct2, THEN conjunct2, THEN conjunct1]
  note k4 = store [THEN conjunct2, THEN conjunct2, THEN conjunct2, THEN conjunct1]
  note rest = store [THEN conjunct2, THEN conjunct2, THEN conjunct2, THEN conjunct2,
      THEN conjunct2, THEN conjunct2, THEN conjunct2]
  note k8 = rest [THEN conjunct1]
  note k9 = rest [THEN conjunct2, THEN conjunct1]
  note k10 = rest [THEN conjunct2, THEN conjunct2]
  have deps: "getExternalDependencies ?m = [''react'']"
    by (simp add: getExternalDependencies_def emptyManifest_def)
  have shimKeys: "shimKeys True ?m = {''node_modules/react/index.d.ts''}"
    by (simp add: shimKeys_def deps shimPath_def)
  have names: "\<forall>f \<in> set ?fs. normalizePath (normalizePath (name f)) = normalizePath (name f)"
    by (simp add: normalizePath_def startsWith_def)
  have images: "(\<lambda>f. normalizePath (name f)) ` set ?fs = {''a.ts'', ''lib.d.ts''}"
    by (auto simp: normalizePath_def startsWith_def)
  have sub: "fst ` set ?store \<subseteq> {''a.ts'', ''lib.d.ts'', ''node_modules/react/index.d.ts''}"
  proof
    fix k assume "k \<in> fst ` set ?store"
    with k1 have "k = ''lib.d.ts'' \<or> k \<in> shimKeys True ?m
        \<or> (\<exists>f \<in> set ?fs. k = normalizePath (name f))"
      by (rule bspec)
    with shimKeys images show "k \<in> {''a.ts'', ''lib.d.ts'', ''node_modules/react/index.d.ts''}"
      by auto
  qed
  have sup: "{''a.ts'', ''lib.d.ts'', ''node_modules/react/index.d.ts''} \<subseteq> fst ` set ?store"
  proof -
    from k4 names have "\<forall>f \<in> set ?fs. normalizePath (name f) \<in> fst ` set ?store"
      by blast
    then have "(\<lambda>f. normalizePath (name f)) ` set ?fs \<subseteq> fst ` set ?store" by blast
    with k2 k3 show ?thesis unfolding shimKeys images by blast
  qed
  have a: "map_of ?store ''a.ts'' = Some ''second''"
  proof -
    have "normalizePath ''a.ts'' = ''a.ts'' \<and> ''a.ts'' \<noteq> ''lib.d.ts''
        \<and> ''a.ts'' \<notin> shimKeys True ?m"
      by (simp add: shimKeys normalizePath_def startsWith_def)
    with k10 have "map_of ?store ''a.ts''
        = map_option content (find (\<lambda>f. normalizePath (name f) = ''a.ts'') (rev ?fs))"
      by blast
    then show ?thesis by (simp add: normalizePath_def startsWith_def)
  qed
  have lib: "map_of ?store ''lib.d.ts'' = Some ''interface Object {}''"
    using k8 by (simp add: exampleTexts_def)
  have react: "map_of ?store ''node_modules/react/index.d.ts'' = Some ''declare namespace React {}''"
  proof -
    from k9 deps have "map_of ?store (shimPath ''react'') = Some (shimText exampleTexts ''react'')"
      by simp
    then show ?thesis by (simp add: shimPath_def shimText_def exampleTexts_def)
  qed
  from sub sup a lib react show ?thesis by blast
qed

section \<open>Properties of the Orchestrator\<close>

lemma tryGeneration_result:
  assumes "parseManifest ts inputFiles packageJsonContent = (packageJson, parseWarnings)"
    and "buildProgram ts texts inputFiles packageJson options = Inr program"
    and "emit program = Inr (written, emitResult)"
    and "getPreEmitDiagnostics ts program = Inr preEmit"
  shows "tryGeneration ts texts inputFiles packageJsonContent options
     = (case (if filterToExportsOf options \<and> packageJson \<noteq> None
              then filterRelevantDeclarations ts
                     (emittedDeclarations (includeDeclarationMapOf options) written)
                     packageJson program
              else Inr (emittedDeclarations (includeDeclarationMapOf options) written)) of
          Inl e \<Rightarrow>
            Inl (e, parseWarnings @ formatWarnings ts (preEmit @ diagnostics emitResult))
        | Inr filteredDeclarations \<Rightarrow>
            Inr \<lparr> files = filteredDeclarations,
                  errors = formatErrors ts (preEmit @ diagnostics emitResult),
                  success = (emitSkipped emitResult = False \<and> filteredDeclarations \<noteq> []),
                  warnings = parseWarnings
                    @ formatWarnings ts (preEmit @ diagnostics emitResult) \<rparr>)"
  using assms by (auto simp: tryGeneration_def Let_def split: sum.splits)

lemma tryGeneration_stages:
  assumes "tryGeneration ts texts inputFiles packageJsonContent options = Inr result"
  shows "\<exists>program written emitResult preEmit.
           buildProgram ts texts inputFiles
             (fst (parseManifest ts inputFiles packageJsonContent)) options = Inr program
           \<and> emit program = Inr (written, emitResult)
           \<and> getPreEmitDiagnostics ts program = Inr preEmit"
  using assms
  by (cases "parseManifest ts inputFiles packageJsonContent")
     (auto simp: tryGeneration_def Let_def split: sum.splits prod.splits)

text \<open>
  C3: when the generation ends without a fault, the files of the result are the declaration
  map that the emit of the built program wrote, after the filter, and the result's
  \<open>success\<close> is true exactly when that emit was not skipped and this filtered map is not
  empty; an empty map gives \<open>success = false\<close>.
\<close>

theorem C3_success_iff:
  assumes "tryGeneration ts texts inputFiles packageJsonContent options = Inr result"
  shows "generateMultiFileDeclarations ts texts inputFiles packageJsonContent options = result
         \<and> (\<exists>program written emitResult filteredDeclarations.
               buildProgram ts texts inputFiles
                 (fst (parseManifest ts inputFiles packageJsonContent)) options = Inr program
               \<and> emit program = Inr (written, emitResult)
               \<and> (if filterToExportsOf options
                      \<and> fst (parseManifest ts inputFiles packageJsonContent) \<noteq> None
                   then filterRelevantDeclarations ts
                          (emittedDeclarations (includeDeclarationMapOf options) written)
                          (fst (parseManifest ts inputFiles packageJsonContent)) program
                   else Inr (emittedDeclarations (includeDeclarationMapOf options) written))
                 = Inr filteredDeclarations
               \<and> files result = filteredDeclarations
               \<and> (success result \<longleftrightarrow>
                    emitSkipped emitResult = False \<and> filteredDeclarations \<noteq> []))
         \<and> (files result = [] \<longrightarrow> \<not> success result)"
proof -
  obtain packageJson parseWarnings
    where pm: "parseManifest ts inputFiles packageJsonContent = (packageJson, parseWarnings)"
    by (cases "parseManifest ts inputFiles packageJsonContent")
  from tryGeneration_stages [OF assms] pm obtain program written emitResult preEmit
    where built: "buildProgram ts texts inputFiles packageJson options = Inr program"
      and emitted: "emit program = Inr (written, emitResult)"
      and pre: "getPreEmitDiagnostics ts program = Inr preEmit"
    by auto
  let ?stage = "if filterToExportsOf options \<and> packageJson \<noteq> None
      then filterRelevantDeclarations ts
             (emittedDeclarations (includeDeclarationMapOf options) written) packageJson program
      else Inr (emittedDeclarations (includeDeclarationMapOf options) written)"
  from assms tryGeneration_result [OF pm built emitted pre]
  obtain filteredDeclarations
    where stage: "?stage = Inr filteredDeclarations"
      and res: "result = \<lparr> files = filteredDeclarations,
                  errors = formatErrors ts (preEmit @ diagnostics emitResult),
                  success = (emitSkipped emitResult = False \<and> filteredDeclarations \<noteq> []),
                  warnings = parseWarnings
                    @ formatWarnings ts (preEmit @ diagnostics emitResult) \<rparr>"
    by (cases ?stage) auto
  have gen: "generateMultiFileDeclarations ts texts inputFiles packageJsonContent options = result"
    using assms by (simp add: generateMultiFileDeclarations_def)
  from built emitted stage res pm gen show ?thesis by auto
qed

text \<open>
  C3, at three runs: an emit that is not skipped and writes nothing, one that is not skipped
  and writes four declarations, and one that is skipped.
\<close>

theorem C3_success_iff_witness:
  "generateMultiFileDeclarations (exampleToolchain (exampleProgram [] [] False) [])
     exampleTexts exampleFiles None defaultOptions
   = \<lparr> files = [], errors = [], success = False, warnings = [] \<rparr>
   \<and> generateMultiFileDeclarations (exampleToolchain (exampleProgram [] exampleWritten False) [])
     exampleTexts exampleFiles None defaultOptions
   = \<lparr> files = exampleDeclarations, errors = [], success = True, warnings = [] \<rparr>
   \<and> generateMultiFileDeclarations (exampleToolchain (exampleProgram [] exampleWritten True) [])
     exampleTexts exampleFiles None defaultOptions
   = \<lparr> files = exampleDeclarations, errors = [], success = False, warnings = [] \<rparr>"
proof -
  have run: "tryGeneration (exampleToolchain (exampleProgram [] written skipped) [])
     exampleTexts exampleFiles None defaultOptions
   = Inr \<lparr> files = emittedDeclarations False written, errors = [],
           success = (\<not> skipped \<and> emittedDeclarations False written \<noteq> []),
           warnings = [] \<rparr>" for written skipped
    by (simp add: tryGeneration_def defaultOptions_def parseManifest_def exampleFiles_def
        buildProgram_def exampleToolchain_def exampleProgram_def formatWarnings_def
        formatErrors_def filterToExportsOf_def includeDeclarationMapOf_def Let_def)
  have none: "emittedDeclarations False [] = []"
    by (simp add: emittedDeclarations_def)
  have four: "emittedDeclarations False exampleWritten = exampleDeclarations"
    by (simp add: emittedDeclarations_def exampleWritten_def exampleDeclarations_def
        writeFile_def setProperty_def endsWith_def)
  have four_ne: "exampleDeclarations \<noteq> []"
    by (simp add: exampleDeclarations_def)
  from C3_success_iff [OF run [of "[]" False]] C3_success_iff [OF run [of exampleWritten False]]
       C3_success_iff [OF run [of exampleWritten True]] none four four_ne
  show ?thesis by simp
qed

text \<open>The same run with the four declaration files written succeeds.\<close>

lemma generation_succeeds:
  "generateMultiFileDeclarations
     (exampleToolchain (exampleProgram [] exampleWritten False) [])
     exampleTexts exampleFiles None defaultOptions
   = \<lparr> files = exampleDeclarations, errors = [], success = True, warnings = [] \<rparr>"
  by (simp add: generateMultiFileDeclarations_def tryGeneration_def filterToExportsOf_def includeDeclarationMapOf_def resolveExternalDependenciesOf_def emittedDeclarations_def defaultOptions_def
      parseManifest_def exampleFiles_def buildProgram_def exampleToolchain_def
      exampleProgram_def writeFile_def setProperty_def exampleDeclarations_def exampleWritten_def endsWith_def
      formatWarnings_def formatErrors_def)

subsection \<open>Diagnostics\<close>

lemma formatDiagnostic_positioned:
  "file d = Some sourceFile \<Longrightarrow> start d = Some position \<Longrightarrow>
     getLineAndCharacterOfPosition sourceFile position = (line, character) \<Longrightarrow>
     formatDiagnostic ts d
       = fileName sourceFile @ '':'' @ stringOfNat (line + 1) @ '','' @
         stringOfNat (character + 1) @ '': '' @
         flattenDiagnosticMessageText ts (messageText d) [CHR 0x0A]"
  by (simp add: formatDiagnostic_def)

lemma formatDiagnostic_bare:
  "file d = None \<or> start d = None \<Longrightarrow>
     formatDiagnostic ts d = flattenDiagnosticMessageText ts (messageText d) [CHR 0x0A]"
  by (auto simp: formatDiagnostic_def split: option.splits)

text \<open>
  The errors of a result are the formatted diagnostics of category \<open>Error\<close>, in order; its
  warnings are the manifest warning, if any, and the formatted diagnostics of category
  \<open>Warning\<close>.
\<close>

lemma errors_and_warnings_of_result:
  assumes "tryGeneration ts texts inputFiles packageJsonContent options = Inr result"
  shows "\<exists>program written emitResult preEmit.
           buildProgram ts texts inputFiles
             (fst (parseManifest ts inputFiles packageJsonContent)) options = Inr program
           \<and> emit program = Inr (written, emitResult)
           \<and> getPreEmitDiagnostics ts program = Inr preEmit
           \<and> errors result
               = map (formatDiagnostic ts)
                   (filter (\<lambda>d. category d = Error) (preEmit @ diagnostics emitResult))
           \<and> warnings result
               = snd (parseManifest ts inputFiles packageJsonContent)
                 @ map (formatDiagnostic ts)
                     (filter (\<lambda>d. category d = Warning) (preEmit @ diagnostics emitResult))"
proof -
  obtain packageJson parseWarnings
    where pm: "parseManifest ts inputFiles packageJsonContent = (packageJson, parseWarnings)"
    by (cases "parseManifest ts inputFiles packageJsonContent")
  from assms pm obtain program written emitResult preEmit
    where "buildProgram ts texts inputFiles packageJson options = Inr program"
      and "emit program = Inr (written, emitResult)"
      and "getPreEmitDiagnostics ts program = Inr preEmit"
      and "errors result = formatErrors ts (preEmit @ diagnostics emitResult)"
      and "warnings result = parseWarnings @ formatWarnings ts (preEmit @ diagnostics emitResult)"
    by (auto simp: tryGeneration_def Let_def split: sum.splits prod.splits if_splits)
  with pm show ?thesis by (auto simp: formatErrors_def formatWarnings_def)
qed

text \<open>
  C6, at a diagnostic of category \<open>Message\<close>: the pre-emit diagnostics are one error, one
  message and one warning; the result lists the error and the warning, and the message is in
  neither list.
\<close>

theorem C6_message_diagnostic_dropped:
  "generateMultiFileDeclarations
     (exampleToolchain (exampleProgram [] exampleWritten False) exampleDiagnostics)
     exampleTexts exampleFiles None defaultOptions
   = \<lparr> files = exampleDeclarations,
       errors = [''a.ts:1,5: Cannot find name x.''],
       success = True,
       warnings = [''Unreachable code detected.''] \<rparr>"
  by (simp add: generateMultiFileDeclarations_def tryGeneration_def filterToExportsOf_def includeDeclarationMapOf_def resolveExternalDependenciesOf_def emittedDeclarations_def defaultOptions_def
      parseManifest_def exampleFiles_def buildProgram_def exampleToolchain_def
      exampleProgram_def writeFile_def setProperty_def exampleDeclarations_def exampleWritten_def endsWith_def
      formatWarnings_def formatErrors_def exampleDiagnostics_def formatDiagnostic_def
      sourceFileOf_def stringOfNat.simps digitChar_def)

subsection \<open>Manifest lookup\<close>

lemma parseManifest_from_files:
  assumes "find (\<lambda>f. name f = ''package.json'') inputFiles = Some packageJsonFile"
  shows "parseManifest ts inputFiles None
           = (case JSON_parse ts (content packageJsonFile) of
                Inr packageJson \<Rightarrow> (packageJson, [])
              | Inl message \<Rightarrow>
                  (None, [''Failed to parse package.json from file map: '' @ message]))"
  using assms by (simp add: parseManifest_def)

lemma parseManifest_explicit_same:
  assumes "find (\<lambda>f. name f = ''package.json'') inputFiles = Some packageJsonFile"
    and "JSON_parse ts (content packageJsonFile) = Inr packageJson"
  shows "parseManifest ts inputFiles (Some (content packageJsonFile))
           = parseManifest ts inputFiles None"
  using assms by (cases "content packageJsonFile = []") (auto simp: parseManifest_def)

lemma tryGeneration_cong_manifest:
  assumes "parseManifest ts inputFiles a = parseManifest ts inputFiles b"
  shows "tryGeneration ts texts inputFiles a options = tryGeneration ts texts inputFiles b options"
  using assms by (simp add: tryGeneration_def)

lemma formatDiagnostic_parse_free:
  "formatDiagnostic (ts \<lparr> JSON_parse := parse \<rparr>) = formatDiagnostic ts"
  by (rule ext) (simp add: formatDiagnostic_def split: option.splits prod.splits)

lemma formatWarnings_parse_free:
  "formatWarnings (ts \<lparr> JSON_parse := parse \<rparr>) = formatWarnings ts"
  by (rule ext) (simp add: formatWarnings_def formatDiagnostic_parse_free)

lemma formatErrors_parse_free:
  "formatErrors (ts \<lparr> JSON_parse := parse \<rparr>) = formatErrors ts"
  by (rule ext) (simp add: formatErrors_def formatDiagnostic_parse_free)

lemma buildProgram_parse_free:
  "buildProgram (ts \<lparr> JSON_parse := parse \<rparr>) = buildProgram ts"
  by (intro ext) (simp add: buildProgram_def)

lemma parse_failure_run:
  assumes "parseManifest ts inputFiles packageJsonContent = (None, [w])"
  shows "generateMultiFileDeclarations ts texts inputFiles packageJsonContent options
     = (generateMultiFileDeclarations (ts \<lparr> JSON_parse := \<lambda>text. Inr None \<rparr>) texts inputFiles
          None options)
       \<lparr> warnings := w #
           warnings (generateMultiFileDeclarations (ts \<lparr> JSON_parse := \<lambda>text. Inr None \<rparr>)
                       texts inputFiles None options) \<rparr>"
proof -
  have null: "parseManifest (ts \<lparr> JSON_parse := \<lambda>text. Inr None \<rparr>) inputFiles None = (None, [])"
    by (simp add: parseManifest_def split: option.splits)
  show ?thesis
    unfolding generateMultiFileDeclarations_def tryGeneration_def assms null
    by (simp add: buildProgram_parse_free formatWarnings_parse_free formatErrors_parse_free
        internalError_def Let_def split: sum.splits prod.splits)
qed

lemma buildProgram_explicit:
  "buildProgram ts texts inputFiles packageJson options
     = createProgram ts (map (\<lambda>f. normalizePath (name f)) inputFiles)
         (programOptions (includeDeclarationMapOf options) packageJson)
         (compilerHost
            (buildFileMap texts inputFiles (resolveExternalDependenciesOf options) packageJson)
            (resolveExternalDependenciesOf options))"
  by (simp add: buildProgram_def Let_def)

lemma filterRelevantDeclarations_explicit:
  assumes "getPackageEntryPoints manifest = Inr entryPoints"
  shows "filterRelevantDeclarations ts allDeclarations (Some manifest) program
     = Inr (if entryPoints = []
               \<or> walkEntryPoints ts program allDeclarations entryPoints [] = []
            then allDeclarations
            else selectDeclarations allDeclarations
                   (walkEntryPoints ts program allDeclarations entryPoints []))"
  using assms by (simp add: filterRelevantDeclarations_def Let_def)

lemma generate_result:
  assumes "parseManifest ts inputFiles packageJsonContent = (packageJson, parseWarnings)"
    and "buildProgram ts texts inputFiles packageJson options = Inr program"
    and "emit program = Inr (written, emitResult)"
    and "getPreEmitDiagnostics ts program = Inr preEmit"
  shows "generateMultiFileDeclarations ts texts inputFiles packageJsonContent options
     = (case (if filterToExportsOf options \<and> packageJson \<noteq> None
              then filterRelevantDeclarations ts
                     (emittedDeclarations (includeDeclarationMapOf options) written)
                     packageJson program
              else Inr (emittedDeclarations (includeDeclarationMapOf options) written)) of
          Inl e \<Rightarrow>
            internalError e (parseWarnings @ formatWarnings ts (preEmit @ diagnostics emitResult))
        | Inr filteredDeclarations \<Rightarrow>
            \<lparr> files = filteredDeclarations,
              errors = formatErrors ts (preEmit @ diagnostics emitResult),
              success = (emitSkipped emitResult = False \<and> filteredDeclarations \<noteq> []),
              warnings = parseWarnings
                @ formatWarnings ts (preEmit @ diagnostics emitResult) \<rparr>)"
  unfolding generateMultiFileDeclarations_def tryGeneration_result [OF assms]
  by (simp split: sum.splits)

text \<open>
  C9: without a \<open>packageJsonContent\<close> argument, the first submitted file named
  \<open>package.json\<close> is parsed. When it parses, the manifest is the parsed value and the run is
  the run that is given the file's content as \<open>packageJsonContent\<close>: the store the program
  is created over holds the shim of each dependency of that manifest, the files of the result
  are what \<open>filterRelevantDeclarations\<close> returns for that manifest, and that is the
  selection walked from the manifest's entry points. When it does not parse, there is no
  manifest, one warning is recorded, the program is created over a store without shims and
  the files of the result are all the emitted declarations.
\<close>

theorem C9_manifest_from_file_list:
  assumes "find (\<lambda>f. name f = ''package.json'') inputFiles = Some packageJsonFile"
  shows "(JSON_parse ts (content packageJsonFile) = Inr packageJson \<longrightarrow>
            parseManifest ts inputFiles None = (packageJson, [])
            \<and> generateMultiFileDeclarations ts texts inputFiles None options
                = generateMultiFileDeclarations ts texts inputFiles
                    (Some (content packageJsonFile)) options
            \<and> (resolveExternalDependenciesOf options \<and> packageJson \<noteq> None \<longrightarrow>
                 (\<forall>dep \<in> set (getExternalDependencies packageJson).
                    map_of (buildFileMap texts inputFiles
                              (resolveExternalDependenciesOf options) packageJson)
                      (shimPath dep) = Some (shimText texts dep)))
            \<and> (\<forall>program written emitResult preEmit.
                  createProgram ts (map (\<lambda>f. normalizePath (name f)) inputFiles)
                    (programOptions (includeDeclarationMapOf options) packageJson)
                    (compilerHost
                       (buildFileMap texts inputFiles (resolveExternalDependenciesOf options)
                          packageJson)
                       (resolveExternalDependenciesOf options)) = Inr program
                  \<and> emit program = Inr (written, emitResult)
                  \<and> getPreEmitDiagnostics ts program = Inr preEmit \<longrightarrow>
                  generateMultiFileDeclarations ts texts inputFiles None options
                    = (case (if filterToExportsOf options \<and> packageJson \<noteq> None
                             then filterRelevantDeclarations ts
                                    (emittedDeclarations (includeDeclarationMapOf options) written)
                                    packageJson program
                             else Inr (emittedDeclarations (includeDeclarationMapOf options)
                                         written)) of
                         Inl e \<Rightarrow>
                           internalError e
                             (formatWarnings ts (preEmit @ diagnostics emitResult))
                       | Inr filteredDeclarations \<Rightarrow>
                           \<lparr> files = filteredDeclarations,
                             errors = formatErrors ts (preEmit @ diagnostics emitResult),
                             success = (emitSkipped emitResult = False
                                        \<and> filteredDeclarations \<noteq> []),
                             warnings = formatWarnings ts
                                          (preEmit @ diagnostics emitResult) \<rparr>))
            \<and> (\<forall>manifest entryPoints allDeclarations program.
                  packageJson = Some manifest
                  \<and> getPackageEntryPoints manifest = Inr entryPoints \<longrightarrow>
                  filterRelevantDeclarations ts allDeclarations packageJson program
                    = Inr (if entryPoints = []
                              \<or> walkEntryPoints ts program allDeclarations entryPoints [] = []
                           then allDeclarations
                           else selectDeclarations allDeclarations
                                  (walkEntryPoints ts program allDeclarations entryPoints []))))
         \<and> (JSON_parse ts (content packageJsonFile) = Inl message \<longrightarrow>
            parseManifest ts inputFiles None
              = (None, [''Failed to parse package.json from file map: '' @ message])
            \<and> generateMultiFileDeclarations ts texts inputFiles None options
                = (generateMultiFileDeclarations (ts \<lparr> JSON_parse := \<lambda>text. Inr None \<rparr>)
                     texts inputFiles None options)
                  \<lparr> warnings := (''Failed to parse package.json from file map: '' @ message) #
                      warnings (generateMultiFileDeclarations
                                  (ts \<lparr> JSON_parse := \<lambda>text. Inr None \<rparr>)
                                  texts inputFiles None options) \<rparr>
            \<and> (\<forall>program written emitResult preEmit.
                  createProgram ts (map (\<lambda>f. normalizePath (name f)) inputFiles)
                    (programOptions (includeDeclarationMapOf options) None)
                    (compilerHost
                       (AList.update ''lib.d.ts'' (enhancedLibDeclaration texts)
                          (registerFiles inputFiles []))
                       (resolveExternalDependenciesOf options)) = Inr program
                  \<and> emit program = Inr (written, emitResult)
                  \<and> getPreEmitDiagnostics ts program = Inr preEmit \<longrightarrow>
                  generateMultiFileDeclarations ts texts inputFiles None options
                    = \<lparr> files = emittedDeclarations (includeDeclarationMapOf options) written,
                        errors = formatErrors ts (preEmit @ diagnostics emitResult),
                        success = (emitSkipped emitResult = False
                                   \<and> emittedDeclarations (includeDeclarationMapOf options)
                                        written \<noteq> []),
                        warnings = (''Failed to parse package.json from file map: '' @ message)
                                   # formatWarnings ts (preEmit @ diagnostics emitResult) \<rparr>))"
proof (intro conjI impI allI ballI)
  assume ok: "JSON_parse ts (content packageJsonFile) = Inr packageJson"
  show pm: "parseManifest ts inputFiles None = (packageJson, [])"
    by (simp add: parseManifest_from_files [OF assms] ok)
  show "generateMultiFileDeclarations ts texts inputFiles None options
          = generateMultiFileDeclarations ts texts inputFiles
              (Some (content packageJsonFile)) options"
    unfolding generateMultiFileDeclarations_def
    using tryGeneration_cong_manifest [OF parseManifest_explicit_same [OF assms ok]]
    by simp
  {
    fix dep
    assume "resolveExternalDependenciesOf options \<and> packageJson \<noteq> None"
      and "dep \<in> set (getExternalDependencies packageJson)"
    then show "map_of (buildFileMap texts inputFiles
                  (resolveExternalDependenciesOf options) packageJson)
          (shimPath dep) = Some (shimText texts dep)"
      by (simp add: store_holds_shims)
  }
  {
    fix program written emitResult preEmit
    assume stages: "createProgram ts (map (\<lambda>f. normalizePath (name f)) inputFiles)
                    (programOptions (includeDeclarationMapOf options) packageJson)
                    (compilerHost
                       (buildFileMap texts inputFiles (resolveExternalDependenciesOf options)
                          packageJson)
                       (resolveExternalDependenciesOf options)) = Inr program
                  \<and> emit program = Inr (written, emitResult)
                  \<and> getPreEmitDiagnostics ts program = Inr preEmit"
    then have built: "buildProgram ts texts inputFiles packageJson options = Inr program"
      and emitted: "emit program = Inr (written, emitResult)"
      and pre: "getPreEmitDiagnostics ts program = Inr preEmit"
      by (simp_all add: buildProgram_explicit)
    from generate_result [OF pm built emitted pre]
    show "generateMultiFileDeclarations ts texts inputFiles None options
                    = (case (if filterToExportsOf options \<and> packageJson \<noteq> None
                             then filterRelevantDeclarations ts
                                    (emittedDeclarations (includeDeclarationMapOf options) written)
                                    packageJson program
                             else Inr (emittedDeclarations (includeDeclarationMapOf options)
                                         written)) of
                         Inl e \<Rightarrow>
                           internalError e
                             (formatWarnings ts (preEmit @ diagnostics emitResult))
                       | Inr filteredDeclarations \<Rightarrow>
                           \<lparr> files = filteredDeclarations,
                             errors = formatErrors ts (preEmit @ diagnostics emitResult),
                             success = (emitSkipped emitResult = False
                                        \<and> filteredDeclarations \<noteq> []),
                             warnings = formatWarnings ts
                                          (preEmit @ diagnostics emitResult) \<rparr>)"
      by (auto split: sum.splits)
  }
  {
    fix manifest entryPoints allDeclarations program
    assume "packageJson = Some manifest \<and> getPackageEntryPoints manifest = Inr entryPoints"
    then show "filterRelevantDeclarations ts allDeclarations packageJson program
                    = Inr (if entryPoints = []
                              \<or> walkEntryPoints ts program allDeclarations entryPoints [] = []
                           then allDeclarations
                           else selectDeclarations allDeclarations
                                  (walkEntryPoints ts program allDeclarations entryPoints []))"
      by (simp add: filterRelevantDeclarations_explicit)
  }
next
  assume bad: "JSON_parse ts (content packageJsonFile) = Inl message"
  show pm: "parseManifest ts inputFiles None
      = (None, [''Failed to parse package.json from file map: '' @ message])"
    by (simp add: parseManifest_from_files [OF assms] bad)
  show "generateMultiFileDeclarations ts texts inputFiles None options
          = (generateMultiFileDeclarations (ts \<lparr> JSON_parse := \<lambda>text. Inr None \<rparr>)
               texts inputFiles None options)
            \<lparr> warnings := (''Failed to parse package.json from file map: '' @ message) #
                warnings (generateMultiFileDeclarations
                            (ts \<lparr> JSON_parse := \<lambda>text. Inr None \<rparr>)
                            texts inputFiles None options) \<rparr>"
    by (rule parse_failure_run [OF pm])
  {
    fix program written emitResult preEmit
    assume stages: "createProgram ts (map (\<lambda>f. normalizePath (name f)) inputFiles)
                    (programOptions (includeDeclarationMapOf options) None)
                    (compilerHost
                       (AList.update ''lib.d.ts'' (enhancedLibDeclaration texts)
                          (registerFiles inputFiles []))
                       (resolveExternalDependenciesOf options)) = Inr program
                  \<and> emit program = Inr (written, emitResult)
                  \<and> getPreEmitDiagnostics ts program = Inr preEmit"
    then have built: "buildProgram ts texts inputFiles None options = Inr program"
      and emitted: "emit program = Inr (written, emitResult)"
      and pre: "getPreEmitDiagnostics ts program = Inr preEmit"
      by (simp_all add: buildProgram_explicit buildFileMap_def Let_def)
    from generate_result [OF pm built emitted pre]
    show "generateMultiFileDeclarations ts texts inputFiles None options
                    = \<lparr> files = emittedDeclarations (includeDeclarationMapOf options) written,
                        errors = formatErrors ts (preEmit @ diagnostics emitResult),
                        success = (emitSkipped emitResult = False
                                   \<and> emittedDeclarations (includeDeclarationMapOf options)
                                        written \<noteq> []),
                        warnings = (''Failed to parse package.json from file map: '' @ message)
                                   # formatWarnings ts (preEmit @ diagnostics emitResult) \<rparr>"
      by simp
  }
qed

text \<open>
  C9, at the example files with a \<open>package.json\<close> in front: one whose text the parser
  accepts, with a dependency on \<open>react\<close> and the entry point \<open>index.ts\<close>, and one it rejects.
\<close>

theorem C9_manifest_from_file_list_witness:
  "parseManifest
     (exampleToolchain
        (exampleProgram [ImportDeclaration (Some ''./a''), ImportDeclaration (Some ''./b'')]
           exampleWritten False) [])
     (examplePackageFile ''{main: ./index.js, dependencies: {react: 18}}'' # exampleFiles) None
   = (Some (exampleManifest \<lparr> dependencies := Some [(''react'', ''18'')] \<rparr>), [])
   \<and> map_of (buildFileMap exampleTexts
        (examplePackageFile ''{main: ./index.js, dependencies: {react: 18}}'' # exampleFiles)
        True (Some (exampleManifest \<lparr> dependencies := Some [(''react'', ''18'')] \<rparr>)))
        ''node_modules/react/index.d.ts''
      = Some ''declare namespace React {}''
   \<and> generateMultiFileDeclarations
     (exampleToolchain
        (exampleProgram [ImportDeclaration (Some ''./a''), ImportDeclaration (Some ''./b'')]
           exampleWritten False) [])
     exampleTexts
     (examplePackageFile ''{main: ./index.js, dependencies: {react: 18}}'' # exampleFiles)
     None defaultOptions
   = \<lparr> files = [(''index.d.ts'', Text ''export * from './a'; export * from './b';''),
                (''a.d.ts'', Text ''export declare const a: number;''),
                (''b.d.ts'', Text ''export declare const b: number;'')],
       errors = [], success = True, warnings = [] \<rparr>
   \<and> generateMultiFileDeclarations
     (exampleToolchain
        (exampleProgram [ImportDeclaration (Some ''./a''), ImportDeclaration (Some ''./b'')]
           exampleWritten False) [])
     exampleTexts (examplePackageFile ''{main:'' # exampleFiles) None defaultOptions
   = \<lparr> files = exampleDeclarations, errors = [], success = True,
       warnings = [''Failed to parse package.json from file map: Unexpected token''] \<rparr>"
proof -
  let ?p = "exampleProgram [ImportDeclaration (Some ''./a''), ImportDeclaration (Some ''./b'')]
              exampleWritten False"
  let ?ts = "exampleToolchain ?p []"
  let ?m = "exampleManifest \<lparr> dependencies := Some [(''react'', ''18'')] \<rparr>"
  let ?good = "''{main: ./index.js, dependencies: {react: 18}}''"
  have found: "find (\<lambda>f. name f = ''package.json'') (examplePackageFile t # exampleFiles)
     = Some (examplePackageFile t)" for t
    by (simp add: examplePackageFile_def)
  have ok: "JSON_parse ?ts (content (examplePackageFile ?good)) = Inr (Some ?m)"
    by (simp add: exampleToolchain_def examplePackageFile_def)
  have bad: "JSON_parse ?ts (content (examplePackageFile ''{main:'')) = Inl ''Unexpected token''"
    by (simp add: exampleToolchain_def examplePackageFile_def)
  note parsed = C9_manifest_from_file_list [where ts = ?ts and texts = exampleTexts and options = defaultOptions,
      OF found [of ?good], THEN conjunct1, rule_format, OF ok]
  note failed = C9_manifest_from_file_list [where ts = ?ts and texts = exampleTexts and options = defaultOptions,
      OF found [of "''{main:''"], THEN conjunct2, rule_format, OF bad]
  have opts: "resolveExternalDependenciesOf defaultOptions" "filterToExportsOf defaultOptions"
      "\<not> includeDeclarationMapOf defaultOptions"
    by (simp_all add: resolveExternalDependenciesOf_def filterToExportsOf_def
        includeDeclarationMapOf_def defaultOptions_def)
  have four: "emittedDeclarations False exampleWritten = exampleDeclarations"
    by (simp add: emittedDeclarations_def exampleWritten_def exampleDeclarations_def
        writeFile_def setProperty_def endsWith_def)
  have stages: "createProgram ?ts names copts host = Inr ?p"
      "emit ?p = Inr (exampleWritten, \<lparr> emitSkipped = False, diagnostics = [] \<rparr>)"
      "getPreEmitDiagnostics ?ts ?p = Inr []" for names copts host
    by (simp_all add: exampleToolchain_def exampleProgram_def)
  have filtered: "filterRelevantDeclarations ?ts exampleDeclarations (Some ?m) ?p
      = Inr [(''index.d.ts'', Text ''export * from './a'; export * from './b';''),
             (''a.d.ts'', Text ''export declare const a: number;''),
             (''b.d.ts'', Text ''export declare const b: number;'')]"
    by (simp add: filterRelevantDeclarations_def getPackageEntryPoints_def exampleManifest_def
      emptyManifest_def pushTypings_def toSourcePath_def normalizePath_def replaceSuffix_def
      endsWith_def startsWith_def walkEntryPoints_def exampleProgram_def exampleSources_def
      sourceFileOf_def dtsPathOf_def hasDeclaration_def getProperty_def setProperty_def
      exampleDeclarations_def importedFileOf_def exampleToolchain_def selectDeclarations_def
      Let_def)
  have deps: "''react'' \<in> set (getExternalDependencies (Some ?m))"
    by (simp add: getExternalDependencies_def exampleManifest_def emptyManifest_def)
  have pm: "parseManifest ?ts (examplePackageFile ?good # exampleFiles) None = (Some ?m, [])"
    using parsed by blast
  have shim: "map_of (buildFileMap exampleTexts (examplePackageFile ?good # exampleFiles)
        True (Some ?m)) ''node_modules/react/index.d.ts'' = Some ''declare namespace React {}''"
    using parsed [THEN conjunct2, THEN conjunct2, THEN conjunct1, rule_format, OF _ deps] opts
    by (simp add: shimPath_def shimText_def exampleTexts_def)
  have run: "generateMultiFileDeclarations ?ts exampleTexts
       (examplePackageFile ?good # exampleFiles) None defaultOptions
     = \<lparr> files = [(''index.d.ts'', Text ''export * from './a'; export * from './b';''),
                (''a.d.ts'', Text ''export declare const a: number;''),
                (''b.d.ts'', Text ''export declare const b: number;'')],
       errors = [], success = True, warnings = [] \<rparr>"
    using parsed [THEN conjunct2, THEN conjunct2, THEN conjunct2, THEN conjunct1, rule_format,
        of ?p exampleWritten "\<lparr> emitSkipped = False, diagnostics = [] \<rparr>" "[]"]
      stages opts four filtered
    by (simp add: formatErrors_def formatWarnings_def)
  have run_failed: "generateMultiFileDeclarations ?ts exampleTexts
       (examplePackageFile ''{main:'' # exampleFiles) None defaultOptions
     = \<lparr> files = exampleDeclarations, errors = [], success = True,
       warnings = [''Failed to parse package.json from file map: Unexpected token''] \<rparr>"
    using failed [THEN conjunct2, THEN conjunct2, rule_format,
        of ?p exampleWritten "\<lparr> emitSkipped = False, diagnostics = [] \<rparr>" "[]"]
      stages opts four
    by (simp add: formatErrors_def formatWarnings_def exampleDeclarations_def)
  from pm shim run run_failed show ?thesis by simp
qed

section \<open>Properties of the race with the timer\<close>

lemma generation_ignores_timeout:
  "generateMultiFileDeclarations ts texts inputFiles packageJsonContent
     (options \<lparr> timeoutMs := t \<rparr>)
   = generateMultiFileDeclarations ts texts inputFiles packageJsonContent options"
  by (simp add: generateMultiFileDeclarations_def tryGeneration_def buildProgram_def
      filterToExportsOf_def includeDeclarationMapOf_def resolveExternalDependenciesOf_def)

lemma raceWithTimeout_generation_first:
  "raceWithTimeout GenerationFirst ts texts inputFiles packageJsonContent options
     = Fulfilled (generateMultiFileDeclarations ts texts inputFiles packageJsonContent options)"
  by (simp add: raceWithTimeout_def promiseRace_def generationPromise_def)

lemma raceWithTimeout_timer_first:
  "raceWithTimeout TimerFirst ts texts inputFiles packageJsonContent options
     = Rejected (''Declaration generation timed out after ''
                   @ stringOfNat (timeoutMsOf options) @ ''ms'')"
  by (simp add: raceWithTimeout_def promiseRace_def timeoutPromise_def)

lemma raceWithTimeout_fulfilled:
  "raceWithTimeout scheduling ts texts inputFiles packageJsonContent options = Fulfilled result
     \<Longrightarrow> scheduling = GenerationFirst
         \<and> result = generateMultiFileDeclarations ts texts inputFiles packageJsonContent
                      (options \<lparr> timeoutMs := t \<rparr>)"
  by (cases scheduling)
     (simp_all add: raceWithTimeout_generation_first raceWithTimeout_timer_first
        generation_ignores_timeout)

text \<open>
  C7, at the example files with \<open>timeoutMs = 1\<close>: when the generation promise settles
  first, as it does in the source however long the body ran, the returned promise is
  fulfilled with the ordinary result, here a success; when the timer settles first the
  returned promise is rejected with an error. In neither case is it fulfilled with a result
  whose \<open>success\<close> is false and whose errors name the timeout.
\<close>

theorem C7_timeout_never_a_result:
  "raceWithTimeout GenerationFirst
     (exampleToolchain (exampleProgram [] exampleWritten False) [])
     exampleTexts exampleFiles None (defaultOptions \<lparr> timeoutMs := Some 1 \<rparr>)
   = Fulfilled \<lparr> files = exampleDeclarations, errors = [], success = True, warnings = [] \<rparr>
   \<and> raceWithTimeout TimerFirst
     (exampleToolchain (exampleProgram [] exampleWritten False) [])
     exampleTexts exampleFiles None (defaultOptions \<lparr> timeoutMs := Some 1 \<rparr>)
   = Rejected ''Declaration generation timed out after 1ms''"
  by (simp add: raceWithTimeout_def promiseRace_def generationPromise_def timeoutPromise_def
      timeoutMsOf_def stringOfNat.simps digitChar_def
      generateMultiFileDeclarations_def tryGeneration_def filterToExportsOf_def
      includeDeclarationMapOf_def resolveExternalDependenciesOf_def emittedDeclarations_def
      defaultOptions_def parseManifest_def exampleFiles_def buildProgram_def
      exampleToolchain_def exampleProgram_def writeFile_def setProperty_def
      exampleDeclarations_def exampleWritten_def endsWith_def formatWarnings_def
      formatErrors_def)

end
